theory Spec2Isabelle
  imports Complex_Main
begin

section \<open>Conventions of the embedding\<close>

text \<open>
  The embedding follows \<^verbatim>\<open>sarracen/interpolate.py\<close>,
  \<^verbatim>\<open>sarracen/kernels/base_kernel.py\<close> and
  \<^verbatim>\<open>sarracen/kernels/cubic_spline.py\<close>.

  \<^item> A Python float is a \<^typ>\<open>real\<close>: rounding, overflow, \<open>inf\<close> and \<open>NaN\<close> are not
    represented. In particular a division by a zero smoothing length or density, which
    gives \<open>inf\<close> or \<open>NaN\<close> in the source, is outside the model; the theorems are about
    the particle sets of the data model (\<open>h > 0\<close>, \<open>rho > 0\<close>), and those whose statement
    shows such a quotient assume it.
  \<^item> A one-dimensional numpy array is a \<^typ>\<open>real list\<close>, a two-dimensional one a list of
    rows. An elementwise numpy expression over arrays is a \<open>map\<close> over the index range of
    its first operand.
  \<^item> A \<open>prange\<close> loop is modelled twice. The projectors \<open>fast_2d\<close>, \<open>fast_2d_cross\<close>,
    \<open>fast_3d\<close> and \<open>fast_3d_cross\<close> run its iterations one after another, as a \<open>fold\<close> over
    the index range: this is the result when no two iterations overlap in time. Under
    \<open>@njit(parallel=True)\<close> the iterations are spread over threads, and their updates
    \<open>image[...] += ...\<close> of the shared output are not synchronised; \<open>run_accesses\<close> models one
    pixel under an interleaving of the reads and writes of the iterations. What is proved
    of a single particle, and of which particles enter the loop, does not depend on the
    interleaving; a sum over several particles is the result of the run one after another.
  \<^item> A name with a leading underscore loses it (\<open>_fast_2d\<close> is \<open>fast_2d\<close>,
    \<open>_int_func\<close> is \<open>int_func\<close>, \<open>_column_cache\<close> is \<open>column_cache\<close>).
  \<^item> An exception is a value of \<open>error\<close>, carried in the left summand of the result.
\<close>

datatype error = ValueError string | KeyError string | IndexError string

definition ebind :: "error + 'a \<Rightarrow> ('a \<Rightarrow> error + 'b) \<Rightarrow> error + 'b" where
  "ebind m f = (case m of Inl e \<Rightarrow> Inl e | Inr v \<Rightarrow> f v)"


section \<open>The numpy operations the source uses\<close>

text \<open>\<open>np.rint\<close>: the nearest integer, ties to the even one; the result is still a float.\<close>

definition np_rint :: "real \<Rightarrow> real" where
  "np_rint v =
     (let f = \<lfloor>v\<rfloor>; d = v - of_int f
      in of_int (if d < 1 / 2 then f else if 1 / 2 < d then f + 1
                 else if even f then f else f + 1))"

text \<open>\<open>a.clip(a_min, a_max)\<close> is \<open>minimum(maximum(a, a_min), a_max)\<close>.\<close>

definition clip :: "real \<Rightarrow> real \<Rightarrow> real \<Rightarrow> real" where
  "clip v a_min a_max = min (max v a_min) a_max"

text \<open>\<open>int(v)\<close> truncates towards zero.\<close>

definition py_int :: "real \<Rightarrow> int" where
  "py_int v = (if 0 \<le> v then \<lfloor>v\<rfloor> else \<lceil>v\<rceil>)"

text \<open>\<open>np.arange(a, b)\<close> for integers: \<open>a, a + 1, \<dots>, b - 1\<close>, empty when \<open>b \<le> a\<close>.\<close>

definition np_arange :: "int \<Rightarrow> int \<Rightarrow> real list" where
  "np_arange a b = map of_int [a..b - 1]"

definition np_zeros :: "int \<Rightarrow> real list" where
  "np_zeros n = replicate (nat n) 0"

definition np_zeros2 :: "int \<Rightarrow> int \<Rightarrow> real list list" where
  "np_zeros2 rows cols = replicate (nat rows) (replicate (nat cols) 0)"

text \<open>Boolean-mask indexing \<open>a[mask]\<close>: the entries of \<open>a\<close> where the mask is true, in order.\<close>

definition mask_select :: "'a list \<Rightarrow> bool list \<Rightarrow> 'a list" where
  "mask_select a msk = map fst (filter snd (zip a msk))"

text \<open>
  \<open>out[a:b] += vals\<close> and \<open>image[j0:j1, i0:i1] += blk\<close>, for slice bounds that lie between 0
  and the length of the axis (every bound in the source comes out of a \<open>clip\<close> to that
  range). Entry \<open>k\<close> of the slice is entry \<open>a + k\<close> of the array.
\<close>

definition add_slice :: "real list \<Rightarrow> int \<Rightarrow> int \<Rightarrow> real list \<Rightarrow> real list" where
  "add_slice out a b vals =
     map (\<lambda>p. if a \<le> int p \<and> int p < b then out ! p + vals ! nat (int p - a) else out ! p)
       [0..<length out]"

definition add_block ::
  "real list list \<Rightarrow> int \<Rightarrow> int \<Rightarrow> int \<Rightarrow> int \<Rightarrow> real list list \<Rightarrow> real list list" where
  "add_block img j0 j1 i0 i1 blk =
     map (\<lambda>r. if j0 \<le> int r \<and> int r < j1
               then add_slice (img ! r) i0 i1 (blk ! nat (int r - j0))
               else img ! r)
       [0..<length img]"

text \<open>
  \<open>np.linspace(start, stop, num)\<close>: \<open>num\<close> equally spaced points, the step being
  \<open>(stop - start) / (num - 1)\<close>; a single point is \<open>start\<close>.
\<close>

definition np_linspace :: "real \<Rightarrow> real \<Rightarrow> int \<Rightarrow> real list" where
  "np_linspace start stop num =
     (if num = 1 then [start]
      else map (\<lambda>i. start + of_nat i * ((stop - start) / of_int (num - 1))) [0..<nat num])"

text \<open>
  \<open>np.interp(x, xp, fp)\<close> for increasing \<open>xp\<close>: \<open>fp[0]\<close> to the left of \<open>xp[0]\<close>, \<open>fp[-1]\<close> to
  the right of \<open>xp[-1]\<close>, and between two neighbouring sample points the straight line
  through them. The compiled implementation rejects an empty \<open>xp\<close> and an \<open>fp\<close> whose
  length differs from that of \<open>xp\<close>.
\<close>

fun interp_seg :: "real \<Rightarrow> real list \<Rightarrow> real list \<Rightarrow> real" where
  "interp_seg x (x0 # x1 # xs) (f0 # f1 # fs) =
     (if x < x1
      then (if x0 = x then f0 else (f1 - f0) / (x1 - x0) * (x - x0) + f0)
      else interp_seg x (x1 # xs) (f1 # fs))"
| "interp_seg x [x0] (f0 # fs) = f0"
| "interp_seg x xp fp = 0"

definition interp_scalar :: "real \<Rightarrow> real list \<Rightarrow> real list \<Rightarrow> real" where
  "interp_scalar x xp fp =
     (if last xp < x then last fp else if x < hd xp then hd fp else interp_seg x xp fp)"

definition np_interp :: "real list list \<Rightarrow> real list \<Rightarrow> real list \<Rightarrow> error + real list list" where
  "np_interp x xp fp =
     (if length xp = 0 then Inl (ValueError ''array of sample points is empty'')
      else if length xp \<noteq> length fp then Inl (ValueError ''fp and xp are not of the same size.'')
      else Inr (map (map (\<lambda>v. interp_scalar v xp fp)) x))"

text \<open>
  \<open>np.isclose(a, b)\<close> with the default tolerances \<open>rtol = 1e-05\<close>, \<open>atol = 1e-08\<close>:
  \<open>|a - b| \<le> atol + rtol \<sqdot> |b|\<close>.
\<close>

definition np_isclose :: "real \<Rightarrow> real \<Rightarrow> bool" where
  "np_isclose a b \<longleftrightarrow> \<bar>a - b\<bar> \<le> 1 / 10 ^ 8 + 1 / 10 ^ 5 * \<bar>b\<bar>"


section \<open>Kernels\<close>

text \<open>
  A kernel object: the two static methods \<open>get_radius\<close> and \<open>w\<close>, which a subclass
  overrides, and the cached column kernel \<open>_column_cache\<close>. (The second cache,
  \<open>_ckernel_func_cache\<close>, is never written and is left out.)
\<close>

record BaseKernel =
  get_radius :: real
  w :: "real \<Rightarrow> int \<Rightarrow> real"
  column_cache :: "real list option"

text \<open>\<open>BaseKernel()\<close>: radius 1, constant weight 1, empty cache.\<close>

definition BaseKernel_init :: BaseKernel where
  "BaseKernel_init = \<lparr>get_radius = 1, w = (\<lambda>q dim. 1), column_cache = None\<rparr>"

text \<open>
  \<open>CubicSplineKernel.w\<close>. A Python boolean multiplies as 0 or 1, which is \<open>of_bool\<close>.
\<close>

definition CubicSplineKernel_w :: "real \<Rightarrow> int \<Rightarrow> real" where
  "CubicSplineKernel_w q ndim =
     (let norm = (if ndim = 1 then 2.0 / 3.0
                  else if ndim = 2 then 10.0 / (7.0 * pi) else 1.0 / pi)
      in norm * ((1.0 - 1.5 * q * q + 0.75 * q * q * q) * of_bool (0.0 \<le> q) * of_bool (q < 1.0)
                 + 0.25 * (2.0 - q) * (2.0 - q) * (2.0 - q) * of_bool (1.0 \<le> q) * of_bool (q < 2.0)))"

definition CubicSplineKernel :: BaseKernel where
  "CubicSplineKernel = \<lparr>get_radius = 2.0, w = CubicSplineKernel_w, column_cache = None\<rparr>"

text \<open>
  \<open>BaseKernel._int_func\<close>. \<open>np.zeros(samples + 1)\<close> rejects a negative length, and for
  \<open>samples = -1\<close> the final store \<open>result[samples] = 0.0\<close> addresses an empty array.
\<close>

definition int_func :: "real \<Rightarrow> int \<Rightarrow> (real \<Rightarrow> int \<Rightarrow> real) \<Rightarrow> error + real list" where
  "int_func radius samples wfunc =
     (if samples + 1 < 0 then Inl (ValueError ''negative dimensions are not allowed'')
      else if samples < 0 then Inl (IndexError ''index is out of bounds'')
      else
        let result = np_zeros (samples + 1);
            r2 = radius * radius;
            result =
              fold (\<lambda>i result.
                let q_xy2 = of_nat i * (r2 / of_int samples);
                    bounds = sqrt (r2 - q_xy2);
                    dz = bounds / 99.0;
                    coldens =
                      fold (\<lambda>j coldens.
                        let q_z = of_nat j * dz;
                            q = sqrt (q_xy2 + q_z * q_z);
                            y = wfunc q 3
                        in if j = 0 \<or> j = 99 then coldens + 0.5 * y * dz
                           else coldens + y * dz)
                        [0..<100] 0.0
                in result[i := 2 * coldens])
                [0..<nat samples] result
        in Inr (result[nat samples := 0.0]))"

text \<open>
  \<open>BaseKernel.get_column_kernel\<close>: the result and the kernel object after the call (the
  table for 1000 samples is kept in the cache).
\<close>

definition get_column_kernel ::
  "'a BaseKernel_scheme \<Rightarrow> int \<Rightarrow> (error + real list) \<times> 'a BaseKernel_scheme" where
  "get_column_kernel self samples =
     (case (if samples = 1000 then column_cache self else None) of
        Some cached \<Rightarrow> (Inr cached, self)
      | None \<Rightarrow>
         (case int_func (get_radius self) samples (w self) of
            Inl e \<Rightarrow> (Inl e, self)
          | Inr c_kernel \<Rightarrow>
              (Inr c_kernel,
               if samples = 1000 then self\<lparr>column_cache := Some c_kernel\<rparr> else self)))"

text \<open>
  \<^verbatim>\<open>interpolate.py\<close> reads the weight function of its kernel argument through the
  attribute \<open>weight\<close>. The kernel classes above name theirs \<open>w\<close>; a kernel that the
  projectors of \<^verbatim>\<open>interpolate.py\<close> accept is a \<open>BaseKernel\<close> that carries this
  attribute as well.
\<close>

record Kernel = BaseKernel +
  weight :: "real \<Rightarrow> int \<Rightarrow> real"


section \<open>Particle data\<close>

text \<open>
  The data frame is outside the source modelled here. It is a table of \<open>nrows\<close> rows whose
  columns are addressed by label; \<open>data[label].to_numpy()\<close> is the column as an array,
  and an unknown label raises \<open>KeyError\<close>.
\<close>

record SarracenDataFrame =
  nrows :: nat
  columns :: "string \<Rightarrow> (nat \<Rightarrow> real) option"

definition to_numpy :: "SarracenDataFrame \<Rightarrow> string \<Rightarrow> error + real list" where
  "to_numpy data label =
     (case columns data label of
        None \<Rightarrow> Inl (KeyError label)
      | Some col \<Rightarrow> Inr (map col [0..<nrows data]))"


section \<open>The four projectors\<close>

text \<open>
  Each \<open>_fast_\<dots>\<close> function ends in a loop \<open>for i in prange(\<dots>)\<close> whose body adds the block
  of particle \<open>i\<close> to a slice of the shared output array. The definitions below run the
  iterations in index order, one after another. In \<open>fast_3d\<close> an exception of \<open>np.interp\<close>
  ends the loop and is the result, as for a Python exception raised in a loop body; what
  the parallel runtime does with an exception raised on a worker thread is not modelled.
\<close>

subsection \<open>\<open>_fast_2d\<close> and \<open>interpolate_2d\<close>\<close>

definition fast_2d ::
  "real list \<Rightarrow> real list \<Rightarrow> real list \<Rightarrow> (real \<Rightarrow> int \<Rightarrow> real) \<Rightarrow> real \<Rightarrow>
   real list \<Rightarrow> real list \<Rightarrow> real list \<Rightarrow> real \<Rightarrow> real \<Rightarrow> real \<Rightarrow> real \<Rightarrow> int \<Rightarrow> int \<Rightarrow>
   real list list" where
  "fast_2d target x_data y_data wfunc k_rad mass rho h xmin ymin pixwidthx pixwidthy
     pixcountx pixcounty =
     (let img = np_zeros2 pixcounty pixcountx;
          term = map (\<lambda>i. target ! i * mass ! i / (rho ! i * (h ! i) ^ 2)) [0..<length target];
          ipixmin = map (\<lambda>i. clip (np_rint ((x_data ! i - k_rad * h ! i - xmin) / pixwidthx))
                                0 (of_int pixcountx)) [0..<length x_data];
          jpixmin = map (\<lambda>i. clip (np_rint ((y_data ! i - k_rad * h ! i - ymin) / pixwidthy))
                                0 (of_int pixcounty)) [0..<length y_data];
          ipixmax = map (\<lambda>i. clip (np_rint ((x_data ! i + k_rad * h ! i - xmin) / pixwidthx))
                                0 (of_int pixcountx)) [0..<length x_data];
          jpixmax = map (\<lambda>i. clip (np_rint ((y_data ! i + k_rad * h ! i - ymin) / pixwidthy))
                                0 (of_int pixcounty)) [0..<length y_data]
      in fold (\<lambda>i img.
           let dx2i = map (\<lambda>p. (xmin + (p + 0.5) * pixwidthx - x_data ! i) ^ 2
                                 * (1 / (h ! i) ^ 2))
                        (np_arange (py_int (ipixmin ! i)) (py_int (ipixmax ! i)));
               ypix = map (\<lambda>p. ymin + (p + 0.5) * pixwidthy)
                        (np_arange (py_int (jpixmin ! i)) (py_int (jpixmax ! i)));
               dy = map (\<lambda>v. v - y_data ! i) ypix;
               dy2 = map (\<lambda>v. v * v * (1 / (h ! i) ^ 2)) dy;
               q2 = map (\<lambda>b. map (\<lambda>a. a + b) dx2i) dy2;
               wab = map (map (\<lambda>v. wfunc (sqrt v) 2)) q2
           in add_block img (py_int (jpixmin ! i)) (py_int (jpixmax ! i))
                (py_int (ipixmin ! i)) (py_int (ipixmax ! i))
                (map (map (\<lambda>v. v * term ! i)) wab))
           [0..<length term] img)"

definition interpolate_2d ::
  "SarracenDataFrame \<Rightarrow> string \<Rightarrow> string \<Rightarrow> string \<Rightarrow> Kernel \<Rightarrow> real \<Rightarrow> real \<Rightarrow>
   real \<Rightarrow> real \<Rightarrow> int \<Rightarrow> int \<Rightarrow> error + real list list" where
  "interpolate_2d data target x y kern pixwidthx pixwidthy xmin ymin pixcountx pixcounty =
     (if pixwidthx \<le> 0 then Inl (ValueError ''pixwidthx must be greater than zero!'')
      else if pixwidthy \<le> 0 then Inl (ValueError ''pixwidthy must be greater than zero!'')
      else if pixcountx \<le> 0 then Inl (ValueError ''pixcountx must be greater than zero!'')
      else if pixcounty \<le> 0 then Inl (ValueError ''pixcounty must be greater than zero!'')
      else
        ebind (to_numpy data target) (\<lambda>target_a.
        ebind (to_numpy data x) (\<lambda>x_a.
        ebind (to_numpy data y) (\<lambda>y_a.
        ebind (to_numpy data ''m'') (\<lambda>m_a.
        ebind (to_numpy data ''rho'') (\<lambda>rho_a.
        ebind (to_numpy data ''h'') (\<lambda>h_a.
          Inr (fast_2d target_a x_a y_a (weight kern) (get_radius kern) m_a rho_a h_a
                 xmin ymin pixwidthx pixwidthy pixcountx pixcounty))))))))"


subsection \<open>\<open>_fast_2d_cross\<close> and \<open>interpolate_2d_cross\<close>\<close>

text \<open>The slope and the intercept of the cross-section line, as \<open>_fast_2d_cross\<close> sets them.\<close>

definition gradient :: "real \<Rightarrow> real \<Rightarrow> real \<Rightarrow> real \<Rightarrow> real" where
  "gradient x1 y1 x2 y2 = (if \<not> (x2 - x1 = 0) then (y2 - y1) / (x2 - x1) else 0)"

definition yint :: "real \<Rightarrow> real \<Rightarrow> real \<Rightarrow> real \<Rightarrow> real" where
  "yint x1 y1 x2 y2 = y2 - gradient x1 y1 x2 y2 * x2"

definition fast_2d_cross ::
  "real list \<Rightarrow> real list \<Rightarrow> real list \<Rightarrow> (real \<Rightarrow> int \<Rightarrow> real) \<Rightarrow> real \<Rightarrow>
   real list \<Rightarrow> real list \<Rightarrow> real list \<Rightarrow> real \<Rightarrow> real \<Rightarrow> real \<Rightarrow> real \<Rightarrow> int \<Rightarrow> real list" where
  "fast_2d_cross target x_data y_data wfunc k_rad mass rho h x1 y1 x2 y2 pixcount =
     (let gradient = gradient x1 y1 x2 y2;
          yint = yint x1 y1 x2 y2;
          xlength = sqrt ((x2 - x1) ^ 2 + (y2 - y1) ^ 2);
          pixwidth = xlength / of_int pixcount;
          xpixwidth = (x2 - x1) / of_int pixcount;
          term = map (\<lambda>i. target ! i * mass ! i / (rho ! i * (h ! i) ^ 2)) [0..<length target];
          aa = 1 + gradient ^ 2;
          bb = map (\<lambda>i. 2 * gradient * (yint - y_data ! i) - 2 * x_data ! i)
                 [0..<length y_data];
          cc = map (\<lambda>i. (x_data ! i) ^ 2 + (y_data ! i) ^ 2 - 2 * yint * y_data ! i + yint ^ 2
                          - (k_rad * h ! i) ^ 2) [0..<length x_data];
          det = map (\<lambda>i. (bb ! i) ^ 2 - 4 * aa * cc ! i) [0..<length bb];
          filter_det = map (\<lambda>d. d \<ge> 0) det;
          det = map sqrt det;
          output = np_zeros pixcount;
          bb_f = mask_select bb filter_det;
          det_f = mask_select det filter_det;
          xstart = map (\<lambda>i. clip ((- bb_f ! i - det_f ! i) / (2 * aa)) x1 x2) [0..<length bb_f];
          xend = map (\<lambda>i. clip ((- bb_f ! i + det_f ! i) / (2 * aa)) x1 x2) [0..<length bb_f];
          rstart = map (\<lambda>v. sqrt ((v - x1) ^ 2 + ((gradient * v + yint) - y1) ^ 2)) xstart;
          rend = map (\<lambda>v. sqrt ((v - x1) ^ 2 + ((gradient * v + yint) - y1) ^ 2)) xend;
          ipixmin = map (\<lambda>r. clip (np_rint (r / pixwidth)) 0 (of_int pixcount)) rstart;
          ipixmax = map (\<lambda>r. clip (np_rint (r / pixwidth)) 0 (of_int pixcount)) rend
      in fold (\<lambda>i output.
           let xpix = map (\<lambda>p. x1 + (p + 0.5) * xpixwidth)
                        (np_arange (py_int (ipixmin ! i)) (py_int (ipixmax ! i)));
               ypix = map (\<lambda>v. gradient * v + yint) xpix;
               dy = map (\<lambda>v. v - mask_select y_data filter_det ! i) ypix;
               dx = map (\<lambda>v. v - mask_select x_data filter_det ! i) xpix;
               q2 = map (\<lambda>p. (dx ! p * dx ! p + dy ! p * dy ! p)
                               * (1 / (mask_select h filter_det ! i * mask_select h filter_det ! i)))
                      [0..<length dx];
               wab = map (\<lambda>v. wfunc (sqrt v) 2) q2
           in add_slice output (py_int (ipixmin ! i)) (py_int (ipixmax ! i))
                (map (\<lambda>v. v * mask_select term filter_det ! i) wab))
           [0..<length (mask_select x_data filter_det)] output)"

definition interpolate_2d_cross ::
  "SarracenDataFrame \<Rightarrow> string \<Rightarrow> string \<Rightarrow> string \<Rightarrow> Kernel \<Rightarrow> real \<Rightarrow> real \<Rightarrow>
   real \<Rightarrow> real \<Rightarrow> int \<Rightarrow> error + real list" where
  "interpolate_2d_cross data target x y kern x1 y1 x2 y2 pixcount =
     (if np_isclose y2 y1 \<and> np_isclose x2 x1 then Inl (ValueError ''Zero length cross section!'')
      else if pixcount \<le> 0 then Inl (ValueError ''pixcount must be greater than zero!'')
      else
        ebind (to_numpy data target) (\<lambda>target_a.
        ebind (to_numpy data x) (\<lambda>x_a.
        ebind (to_numpy data y) (\<lambda>y_a.
        ebind (to_numpy data ''m'') (\<lambda>m_a.
        ebind (to_numpy data ''rho'') (\<lambda>rho_a.
        ebind (to_numpy data ''h'') (\<lambda>h_a.
          Inr (fast_2d_cross target_a x_a y_a (weight kern) (get_radius kern) m_a rho_a h_a
                 x1 y1 x2 y2 pixcount))))))))"


subsection \<open>\<open>_fast_3d\<close> and \<open>interpolate_3d\<close>\<close>

definition fast_3d ::
  "real list \<Rightarrow> real list \<Rightarrow> real list \<Rightarrow> real list \<Rightarrow> int \<Rightarrow> real \<Rightarrow>
   real list \<Rightarrow> real list \<Rightarrow> real list \<Rightarrow> real \<Rightarrow> real \<Rightarrow> real \<Rightarrow> real \<Rightarrow> int \<Rightarrow> int \<Rightarrow>
   error + real list list" where
  "fast_3d target x_data y_data wfuncint int_samples k_rad mass rho h xmin ymin
     pixwidthx pixwidthy pixcountx pixcounty =
     (let img = np_zeros2 pixcounty pixcountx;
          term = map (\<lambda>i. target ! i * mass ! i / (rho ! i * (h ! i) ^ 2)) [0..<length target];
          ipixmin = map (\<lambda>i. clip (np_rint ((x_data ! i - k_rad * h ! i - xmin) / pixwidthx))
                                0 (of_int pixcountx)) [0..<length x_data];
          jpixmin = map (\<lambda>i. clip (np_rint ((y_data ! i - k_rad * h ! i - ymin) / pixwidthy))
                                0 (of_int pixcounty)) [0..<length y_data];
          ipixmax = map (\<lambda>i. clip (np_rint ((x_data ! i + k_rad * h ! i - xmin) / pixwidthx))
                                0 (of_int pixcountx)) [0..<length x_data];
          jpixmax = map (\<lambda>i. clip (np_rint ((y_data ! i + k_rad * h ! i - ymin) / pixwidthy))
                                0 (of_int pixcounty)) [0..<length y_data]
      in fold (\<lambda>i acc. ebind acc (\<lambda>img.
           let dx2i = map (\<lambda>p. (xmin + (p + 0.5) * pixwidthx - x_data ! i) ^ 2
                                 * (1 / (h ! i) ^ 2))
                        (np_arange (py_int (ipixmin ! i)) (py_int (ipixmax ! i)));
               ypix = map (\<lambda>p. ymin + (p + 0.5) * pixwidthy)
                        (np_arange (py_int (jpixmin ! i)) (py_int (jpixmax ! i)));
               dy = map (\<lambda>v. v - y_data ! i) ypix;
               dy2 = map (\<lambda>v. v * v * (1 / (h ! i) ^ 2)) dy;
               q2 = map (\<lambda>b. map (\<lambda>a. a + b) dx2i) dy2
           in ebind (np_interp (map (map sqrt) q2) (np_linspace 0 k_rad int_samples) wfuncint)
                (\<lambda>wab.
                  Inr (add_block img (py_int (jpixmin ! i)) (py_int (jpixmax ! i))
                         (py_int (ipixmin ! i)) (py_int (ipixmax ! i))
                         (map (map (\<lambda>v. v * term ! i)) wab)))))
           [0..<length term] (Inr img))"

definition interpolate_3d ::
  "SarracenDataFrame \<Rightarrow> string \<Rightarrow> string \<Rightarrow> string \<Rightarrow> 'a BaseKernel_scheme \<Rightarrow> real \<Rightarrow> real \<Rightarrow>
   real \<Rightarrow> real \<Rightarrow> int \<Rightarrow> int \<Rightarrow> int \<Rightarrow> (error + real list list) \<times> 'a BaseKernel_scheme" where
  "interpolate_3d data target x y kern pixwidthx pixwidthy xmin ymin pixcountx pixcounty
     int_samples =
     (if pixwidthx \<le> 0 then (Inl (ValueError ''pixwidthx must be greater than zero!''), kern)
      else if pixwidthy \<le> 0 then (Inl (ValueError ''pixwidthy must be greater than zero!''), kern)
      else if pixcountx \<le> 0 then (Inl (ValueError ''pixcountx must be greater than zero!''), kern)
      else if pixcounty \<le> 0 then (Inl (ValueError ''pixcounty must be greater than zero!''), kern)
      else
        (case to_numpy data target of Inl e \<Rightarrow> (Inl e, kern) | Inr target_a \<Rightarrow>
        (case to_numpy data x of Inl e \<Rightarrow> (Inl e, kern) | Inr x_a \<Rightarrow>
        (case to_numpy data y of Inl e \<Rightarrow> (Inl e, kern) | Inr y_a \<Rightarrow>
        (case get_column_kernel kern int_samples of
           (Inl e, kern') \<Rightarrow> (Inl e, kern')
         | (Inr column_kernel, kern') \<Rightarrow>
            (ebind (to_numpy data ''m'') (\<lambda>m_a.
             ebind (to_numpy data ''rho'') (\<lambda>rho_a.
             ebind (to_numpy data ''h'') (\<lambda>h_a.
               fast_3d target_a x_a y_a column_kernel int_samples (get_radius kern') m_a rho_a
                 h_a xmin ymin pixwidthx pixwidthy pixcountx pixcounty))),
             kern'))))))"


subsection \<open>\<open>_fast_3d_cross\<close> and \<open>interpolate_3d_cross\<close>\<close>

definition fast_3d_cross ::
  "real list \<Rightarrow> real list \<Rightarrow> real list \<Rightarrow> real list \<Rightarrow> (real \<Rightarrow> int \<Rightarrow> real) \<Rightarrow> real \<Rightarrow> real \<Rightarrow>
   real list \<Rightarrow> real list \<Rightarrow> real list \<Rightarrow> real \<Rightarrow> real \<Rightarrow> real \<Rightarrow> real \<Rightarrow> int \<Rightarrow> int \<Rightarrow>
   real list list" where
  "fast_3d_cross target x_data y_data z_data wfunc zslice k_rad mass rho h pixwidthx pixwidthy
     xmin ymin pixcountx pixcounty =
     (let term = map (\<lambda>i. target ! i * mass ! i / (rho ! i * (h ! i) ^ 3)) [0..<length target];
          dz = map (\<lambda>v. zslice - v) z_data;
          filter_distance = map (\<lambda>i. \<bar>dz ! i\<bar> < k_rad * h ! i) [0..<length dz];
          x_f = mask_select x_data filter_distance;
          y_f = mask_select y_data filter_distance;
          h_f = mask_select h filter_distance;
          ipixmin = map (\<lambda>i. clip (np_rint ((x_f ! i - k_rad * h_f ! i - xmin) / pixwidthx))
                                0 (of_int pixcountx)) [0..<length x_f];
          jpixmin = map (\<lambda>i. clip (np_rint ((y_f ! i - k_rad * h_f ! i - ymin) / pixwidthy))
                                0 (of_int pixcounty)) [0..<length y_f];
          ipixmax = map (\<lambda>i. clip (np_rint ((x_f ! i + k_rad * h_f ! i - xmin) / pixwidthx))
                                0 (of_int pixcountx)) [0..<length x_f];
          jpixmax = map (\<lambda>i. clip (np_rint ((y_f ! i + k_rad * h_f ! i - ymin) / pixwidthy))
                                0 (of_int pixcounty)) [0..<length y_f];
          img = np_zeros2 pixcounty pixcountx
      in fold (\<lambda>i img.
           let dx2i = map (\<lambda>p. ((xmin + (p + 0.5) * pixwidthx
                                   - mask_select x_data filter_distance ! i) ^ 2
                                 * (1 / (mask_select h filter_distance ! i) ^ 2))
                               + ((mask_select dz filter_distance ! i) ^ 2
                                  * (1 / (mask_select h filter_distance ! i) ^ 2)))
                        (np_arange (py_int (ipixmin ! i)) (py_int (ipixmax ! i)));
               ypix = map (\<lambda>p. ymin + (p + 0.5) * pixwidthy)
                        (np_arange (py_int (jpixmin ! i)) (py_int (jpixmax ! i)));
               dy = map (\<lambda>v. v - mask_select y_data filter_distance ! i) ypix;
               dy2 = map (\<lambda>v. v * v * (1 / (mask_select h filter_distance ! i) ^ 2)) dy;
               q2 = map (\<lambda>b. map (\<lambda>a. a + b) dx2i) dy2;
               contribution =
                 map (map (\<lambda>v. mask_select term filter_distance ! i * wfunc (sqrt v) 3)) q2
           in add_block img (py_int (jpixmin ! i)) (py_int (jpixmax ! i))
                (py_int (ipixmin ! i)) (py_int (ipixmax ! i)) contribution)
           [0..<length (mask_select x_data filter_distance)] img)"

definition interpolate_3d_cross ::
  "SarracenDataFrame \<Rightarrow> string \<Rightarrow> real \<Rightarrow> string \<Rightarrow> string \<Rightarrow> string \<Rightarrow> Kernel \<Rightarrow> real \<Rightarrow> real \<Rightarrow>
   real \<Rightarrow> real \<Rightarrow> int \<Rightarrow> int \<Rightarrow> error + real list list" where
  "interpolate_3d_cross data target zslice x y z kern pixwidthx pixwidthy xmin ymin
     pixcountx pixcounty =
     (if pixwidthx \<le> 0 then Inl (ValueError ''pixwidthx must be greater than zero!'')
      else if pixwidthy \<le> 0 then Inl (ValueError ''pixwidthy must be greater than zero!'')
      else if pixcountx \<le> 0 then Inl (ValueError ''pixcountx must be greater than zero!'')
      else if pixcounty \<le> 0 then Inl (ValueError ''pixcounty must be greater than zero!'')
      else
        ebind (to_numpy data target) (\<lambda>target_a.
        ebind (to_numpy data x) (\<lambda>x_a.
        ebind (to_numpy data y) (\<lambda>y_a.
        ebind (to_numpy data z) (\<lambda>z_a.
        ebind (to_numpy data ''m'') (\<lambda>m_a.
        ebind (to_numpy data ''rho'') (\<lambda>rho_a.
        ebind (to_numpy data ''h'') (\<lambda>h_a.
          Inr (fast_3d_cross target_a x_a y_a z_a (weight kern) zslice (get_radius kern)
                 m_a rho_a h_a pixwidthx pixwidthy xmin ymin pixcountx pixcounty)))))))))"


section \<open>Quantities used in the statements\<close>

subsection \<open>Error kinds\<close>

text \<open>
  The source raises \<open>ValueError\<close> throughout and tells the cases apart by the message. The
  specification's \<open>InvalidParameter\<close> (naming the offending field) and
  \<open>DegenerateGeometry\<close> are these exceptions.
\<close>

definition InvalidParameter :: "string \<Rightarrow> error" where
  "InvalidParameter field = ValueError (field @ '' must be greater than zero!'')"

definition DegenerateGeometry :: error where
  "DegenerateGeometry = ValueError ''Zero length cross section!''"

text \<open>\<open>offending field \<dots>\<close>: the grid parameter \<open>field\<close> is not strictly positive.\<close>

definition offending :: "string \<Rightarrow> real \<Rightarrow> real \<Rightarrow> int \<Rightarrow> int \<Rightarrow> bool" where
  "offending field pixwidthx pixwidthy pixcountx pixcounty \<longleftrightarrow>
     field = ''pixwidthx'' \<and> pixwidthx \<le> 0 \<or> field = ''pixwidthy'' \<and> pixwidthy \<le> 0
     \<or> field = ''pixcountx'' \<and> pixcountx \<le> 0 \<or> field = ''pixcounty'' \<and> pixcounty \<le> 0"

subsection \<open>The contribution of one particle to one pixel\<close>

text \<open>
  The pixel index range of a particle along one axis, as the grid projectors compute it:
  \<open>int(rint((coord \<mp> k_rad \<sqdot> h - cmin) / pixwidth).clip(0, pixcount))\<close>.
\<close>

definition pix_lo :: "real \<Rightarrow> real \<Rightarrow> real \<Rightarrow> real \<Rightarrow> real \<Rightarrow> int \<Rightarrow> int" where
  "pix_lo coord hh k_rad cmin pixwidth pixcount =
     py_int (clip (np_rint ((coord - k_rad * hh - cmin) / pixwidth)) 0 (of_int pixcount))"

definition pix_hi :: "real \<Rightarrow> real \<Rightarrow> real \<Rightarrow> real \<Rightarrow> real \<Rightarrow> int \<Rightarrow> int" where
  "pix_hi coord hh k_rad cmin pixwidth pixcount =
     py_int (clip (np_rint ((coord + k_rad * hh - cmin) / pixwidth)) 0 (of_int pixcount))"

definition in_pix :: "real \<Rightarrow> real \<Rightarrow> real \<Rightarrow> real \<Rightarrow> real \<Rightarrow> int \<Rightarrow> nat \<Rightarrow> bool" where
  "in_pix coord hh k_rad cmin pixwidth pixcount p \<longleftrightarrow>
     pix_lo coord hh k_rad cmin pixwidth pixcount \<le> int p
     \<and> int p < pix_hi coord hh k_rad cmin pixwidth pixcount"

text \<open>
  What the loop body of \<open>_fast_2d\<close> adds to pixel \<open>(r, c)\<close> (row \<open>r\<close>, column \<open>c\<close>) for a
  particle with target \<open>t\<close>, position \<open>(xa, ya)\<close>, mass \<open>m\<close>, density \<open>rh\<close> and smoothing
  length \<open>hh\<close>; likewise for the other three projectors. That the projectors compute the
  sums of these contributions is proved below (\<open>fast_2d_pixel\<close>, \<open>fast_2d_cross_pixel\<close>,
  \<open>fast_3d_ok\<close>, \<open>fast_3d_cross_pixel\<close>).
\<close>

definition contribution_2d ::
  "(real \<Rightarrow> int \<Rightarrow> real) \<Rightarrow> real \<Rightarrow> real \<Rightarrow> real \<Rightarrow> real \<Rightarrow> real \<Rightarrow> int \<Rightarrow> int \<Rightarrow>
   real \<Rightarrow> real \<Rightarrow> real \<Rightarrow> real \<Rightarrow> real \<Rightarrow> real \<Rightarrow> nat \<Rightarrow> nat \<Rightarrow> real" where
  "contribution_2d wfunc k_rad xmin ymin pixwidthx pixwidthy pixcountx pixcounty
     t xa ya m rh hh r c =
     (if in_pix ya hh k_rad ymin pixwidthy pixcounty r \<and> in_pix xa hh k_rad xmin pixwidthx pixcountx c
      then wfunc (sqrt ((xmin + (of_nat c + 0.5) * pixwidthx - xa) ^ 2 * (1 / hh ^ 2)
                      + (ymin + (of_nat r + 0.5) * pixwidthy - ya)
                        * (ymin + (of_nat r + 0.5) * pixwidthy - ya) * (1 / hh ^ 2))) 2
           * (t * m / (rh * hh ^ 2))
      else 0)"

definition contribution_3d ::
  "real list \<Rightarrow> int \<Rightarrow> real \<Rightarrow> real \<Rightarrow> real \<Rightarrow> real \<Rightarrow> real \<Rightarrow> int \<Rightarrow> int \<Rightarrow>
   real \<Rightarrow> real \<Rightarrow> real \<Rightarrow> real \<Rightarrow> real \<Rightarrow> real \<Rightarrow> nat \<Rightarrow> nat \<Rightarrow> real" where
  "contribution_3d wfuncint int_samples k_rad xmin ymin pixwidthx pixwidthy pixcountx pixcounty
     t xa ya m rh hh r c =
     (if in_pix ya hh k_rad ymin pixwidthy pixcounty r \<and> in_pix xa hh k_rad xmin pixwidthx pixcountx c
      then interp_scalar
             (sqrt ((xmin + (of_nat c + 0.5) * pixwidthx - xa) ^ 2 * (1 / hh ^ 2)
                    + (ymin + (of_nat r + 0.5) * pixwidthy - ya)
                      * (ymin + (of_nat r + 0.5) * pixwidthy - ya) * (1 / hh ^ 2)))
             (np_linspace 0 k_rad int_samples) wfuncint
           * (t * m / (rh * hh ^ 2))
      else 0)"

definition contribution_3d_cross ::
  "(real \<Rightarrow> int \<Rightarrow> real) \<Rightarrow> real \<Rightarrow> real \<Rightarrow> real \<Rightarrow> real \<Rightarrow> real \<Rightarrow> real \<Rightarrow> int \<Rightarrow> int \<Rightarrow>
   real \<Rightarrow> real \<Rightarrow> real \<Rightarrow> real \<Rightarrow> real \<Rightarrow> real \<Rightarrow> real \<Rightarrow> nat \<Rightarrow> nat \<Rightarrow> real" where
  "contribution_3d_cross wfunc zslice k_rad pixwidthx pixwidthy xmin ymin pixcountx pixcounty
     t xa ya za m rh hh r c =
     (if \<bar>zslice - za\<bar> < k_rad * hh
         \<and> in_pix ya hh k_rad ymin pixwidthy pixcounty r
         \<and> in_pix xa hh k_rad xmin pixwidthx pixcountx c
      then t * m / (rh * hh ^ 3)
           * wfunc (sqrt (((xmin + (of_nat c + 0.5) * pixwidthx - xa) ^ 2 * (1 / hh ^ 2)
                           + (zslice - za) ^ 2 * (1 / hh ^ 2))
                          + (ymin + (of_nat r + 0.5) * pixwidthy - ya)
                            * (ymin + (of_nat r + 0.5) * pixwidthy - ya) * (1 / hh ^ 2))) 3
      else 0)"

text \<open>
  The coefficients of the quadratic that \<open>_fast_2d_cross\<close> solves for a particle at
  \<open>(xa, ya)\<close> with smoothing length \<open>hh\<close>, its discriminant, and the pixel index of a
  point of the line with abscissa \<open>xs\<close>.
\<close>

definition quad_aa :: "real \<Rightarrow> real \<Rightarrow> real \<Rightarrow> real \<Rightarrow> real" where
  "quad_aa x1 y1 x2 y2 = 1 + (gradient x1 y1 x2 y2) ^ 2"

definition quad_bb :: "real \<Rightarrow> real \<Rightarrow> real \<Rightarrow> real \<Rightarrow> real \<Rightarrow> real \<Rightarrow> real" where
  "quad_bb x1 y1 x2 y2 xa ya =
     2 * gradient x1 y1 x2 y2 * (yint x1 y1 x2 y2 - ya) - 2 * xa"

definition quad_cc :: "real \<Rightarrow> real \<Rightarrow> real \<Rightarrow> real \<Rightarrow> real \<Rightarrow> real \<Rightarrow> real \<Rightarrow> real \<Rightarrow> real" where
  "quad_cc x1 y1 x2 y2 k_rad xa ya hh =
     xa ^ 2 + ya ^ 2 - 2 * yint x1 y1 x2 y2 * ya + (yint x1 y1 x2 y2) ^ 2 - (k_rad * hh) ^ 2"

definition quad_det :: "real \<Rightarrow> real \<Rightarrow> real \<Rightarrow> real \<Rightarrow> real \<Rightarrow> real \<Rightarrow> real \<Rightarrow> real \<Rightarrow> real" where
  "quad_det x1 y1 x2 y2 k_rad xa ya hh =
     (quad_bb x1 y1 x2 y2 xa ya) ^ 2
       - 4 * quad_aa x1 y1 x2 y2 * quad_cc x1 y1 x2 y2 k_rad xa ya hh"

definition line_pix :: "real \<Rightarrow> real \<Rightarrow> real \<Rightarrow> real \<Rightarrow> int \<Rightarrow> real \<Rightarrow> int" where
  "line_pix x1 y1 x2 y2 pixcount xs =
     py_int (clip (np_rint (sqrt ((xs - x1) ^ 2
                                  + ((gradient x1 y1 x2 y2 * xs + yint x1 y1 x2 y2) - y1) ^ 2)
                            / (sqrt ((x2 - x1) ^ 2 + (y2 - y1) ^ 2) / of_int pixcount)))
                   0 (of_int pixcount))"

definition contribution_2d_cross ::
  "(real \<Rightarrow> int \<Rightarrow> real) \<Rightarrow> real \<Rightarrow> real \<Rightarrow> real \<Rightarrow> real \<Rightarrow> real \<Rightarrow> int \<Rightarrow>
   real \<Rightarrow> real \<Rightarrow> real \<Rightarrow> real \<Rightarrow> real \<Rightarrow> real \<Rightarrow> nat \<Rightarrow> real" where
  "contribution_2d_cross wfunc k_rad x1 y1 x2 y2 pixcount t xa ya m rh hh p =
     (if 0 \<le> quad_det x1 y1 x2 y2 k_rad xa ya hh
         \<and> line_pix x1 y1 x2 y2 pixcount
              (clip ((- quad_bb x1 y1 x2 y2 xa ya - sqrt (quad_det x1 y1 x2 y2 k_rad xa ya hh))
                     / (2 * quad_aa x1 y1 x2 y2)) x1 x2) \<le> int p
         \<and> int p < line_pix x1 y1 x2 y2 pixcount
              (clip ((- quad_bb x1 y1 x2 y2 xa ya + sqrt (quad_det x1 y1 x2 y2 k_rad xa ya hh))
                     / (2 * quad_aa x1 y1 x2 y2)) x1 x2)
      then wfunc (sqrt (((x1 + (of_nat p + 0.5) * ((x2 - x1) / of_int pixcount) - xa)
                          * (x1 + (of_nat p + 0.5) * ((x2 - x1) / of_int pixcount) - xa)
                         + (gradient x1 y1 x2 y2
                              * (x1 + (of_nat p + 0.5) * ((x2 - x1) / of_int pixcount))
                            + yint x1 y1 x2 y2 - ya)
                           * (gradient x1 y1 x2 y2
                                * (x1 + (of_nat p + 0.5) * ((x2 - x1) / of_int pixcount))
                              + yint x1 y1 x2 y2 - ya))
                        * (1 / (hh * hh)))) 2
           * (t * m / (rh * hh ^ 2))
      else 0)"

subsection \<open>Example inputs\<close>

text \<open>A data frame without rows or columns, and a cubic-spline kernel with the attribute
  \<open>weight\<close> bound to its \<open>w\<close>.\<close>

definition no_particles :: SarracenDataFrame where
  "no_particles = \<lparr>nrows = 0, columns = (\<lambda>label. None)\<rparr>"

definition cubic_spline :: Kernel where
  "cubic_spline =
     \<lparr>get_radius = 2.0, w = CubicSplineKernel_w, column_cache = None,
      weight = CubicSplineKernel_w\<rparr>"

subsection \<open>The column table\<close>

text \<open>
  The composite trapezoidal rule in the words of the specification: \<open>n\<close> evaluation points
  over \<open>n - 1\<close> equal sub-intervals of \<open>[a, b]\<close>, the two end points weighted by \<open>1/2\<close>, all
  others by 1, each scaled by the sub-interval width.
\<close>

definition trapezoid :: "(real \<Rightarrow> real) \<Rightarrow> real \<Rightarrow> real \<Rightarrow> nat \<Rightarrow> real" where
  "trapezoid f a b n =
     (let width = (b - a) / of_nat (n - 1)
      in \<Sum>j<n. (if j = 0 \<or> j = n - 1 then 1 / 2 else 1) * f (a + of_nat j * width) * width)"

text \<open>
  Entry \<open>i\<close> of the column table in the words of the specification: twice the 100-point
  trapezoidal approximation of the integral of \<open>weight(sqrt(q_xy\<^sup>2 + q_z\<^sup>2), 3)\<close> over
  \<open>q_z\<close> in \<open>[0, sqrt(r\<^sup>2 - q_xy\<^sup>2)]\<close>, at \<open>q_xy\<^sup>2 = i \<sqdot> r\<^sup>2 / samples\<close>.
\<close>

definition column_entry :: "(real \<Rightarrow> int \<Rightarrow> real) \<Rightarrow> real \<Rightarrow> int \<Rightarrow> nat \<Rightarrow> real" where
  "column_entry wfunc r samples i =
     (let q_xy2 = of_nat i * r\<^sup>2 / of_int samples
      in 2 * trapezoid (\<lambda>q_z. wfunc (sqrt (q_xy2 + q_z\<^sup>2)) 3) 0 (sqrt (r\<^sup>2 - q_xy2)) 100)"

text \<open>
  The cache of a kernel object is written by \<open>get_column_kernel\<close> only: it is empty or holds
  the table that \<open>_int_func\<close> computes for 1000 samples.
\<close>

definition cache_ok :: "'a BaseKernel_scheme \<Rightarrow> bool" where
  "cache_ok self =
     (case column_cache self of
        None \<Rightarrow> True
      | Some cached \<Rightarrow> int_func (get_radius self) 1000 (w self) = Inr cached)"

subsection \<open>Pixel centres\<close>

text \<open>The centre of pixel \<open>p\<close> along an axis that starts at \<open>cmin\<close>: \<open>cmin + (p + 0.5) \<sqdot> pixwidth\<close>.\<close>

definition pixel_center :: "real \<Rightarrow> real \<Rightarrow> nat \<Rightarrow> real" where
  "pixel_center cmin pixwidth p = cmin + (of_nat p + 0.5) * pixwidth"

subsection \<open>Two particles\<close>

definition two_particles :: SarracenDataFrame where
  "two_particles =
     \<lparr>nrows = 2,
      columns = (\<lambda>label.
        if label = ''x'' then Some (\<lambda>i. if i = 0 then 1 / 2 else 3 / 2)
        else if label = ''y'' then Some (\<lambda>i. 1 / 2)
        else if label = ''z'' then Some (\<lambda>i. 0)
        else if label = ''rho'' then Some (\<lambda>i. if i = 0 then 1 else 2)
        else if label = ''m'' then Some (\<lambda>i. 1)
        else if label = ''h'' then Some (\<lambda>i. 1)
        else None)\<rparr>"

subsection \<open>One pixel under the parallel loop\<close>

text \<open>
  The update \<open>image[jmin:jmax, imin:imax] += wab * term[i]\<close> of iteration \<open>i\<close> reads every
  pixel of its block, adds to it, and writes it back. For one pixel this is a \<open>Load i\<close>
  followed by a \<open>Store i\<close>, by each iteration whose block holds the pixel (\<open>touches i\<close>);
  \<open>added i\<close> is what the iteration adds. The loaded value is private to the iteration.
\<close>

datatype access = Load nat | Store nat

record pixel_state =
  pixel :: real
  loaded :: "nat \<Rightarrow> real"

fun access_step ::
  "(nat \<Rightarrow> bool) \<Rightarrow> (nat \<Rightarrow> real) \<Rightarrow> access \<Rightarrow> pixel_state \<Rightarrow> pixel_state" where
  "access_step touches added (Load i) s =
     (if touches i then s\<lparr>loaded := (loaded s)(i := pixel s)\<rparr> else s)"
| "access_step touches added (Store i) s =
     (if touches i then s\<lparr>pixel := loaded s i + added i\<rparr> else s)"

text \<open>
  The pixel starts at 0 (\<open>np.zeros\<close>). A schedule is the order in which the accesses of all
  iterations reach the pixel.
\<close>

definition run_accesses :: "(nat \<Rightarrow> bool) \<Rightarrow> (nat \<Rightarrow> real) \<Rightarrow> access list \<Rightarrow> real" where
  "run_accesses touches added schedule =
     pixel (fold (access_step touches added) schedule \<lparr>pixel = 0, loaded = (\<lambda>i. 0)\<rparr>)"

text \<open>
  A schedule of a loop of \<open>n\<close> iterations: every iteration loads once and then stores once,
  and no other iteration takes part. Iterations on different threads are ordered in no
  other way.
\<close>

definition schedule_ok :: "nat \<Rightarrow> access list \<Rightarrow> bool" where
  "schedule_ok n schedule \<longleftrightarrow>
     list_all (\<lambda>i. filter (\<lambda>a. a = Load i \<or> a = Store i) schedule = [Load i, Store i]) [0..<n]
     \<and> list_all (\<lambda>a. case a of Load i \<Rightarrow> i < n | Store i \<Rightarrow> i < n) schedule"

text \<open>The schedule of the iterations run one after another in the given order.\<close>

definition serial :: "nat list \<Rightarrow> access list" where
  "serial order = concat (map (\<lambda>i. [Load i, Store i]) order)"

text \<open>
  Pixel \<open>(r, c)\<close> of the image of \<open>_fast_2d\<close> under a schedule: iteration \<open>i\<close> touches the
  pixel when it lies in the block \<open>[jpixmin[i], jpixmax[i]) \<times> [ipixmin[i], ipixmax[i])\<close>, and
  adds the entry of \<open>wab * term[i]\<close> there.
\<close>

definition parallel_pixel_2d ::
  "real list \<Rightarrow> real list \<Rightarrow> real list \<Rightarrow> (real \<Rightarrow> int \<Rightarrow> real) \<Rightarrow> real \<Rightarrow>
   real list \<Rightarrow> real list \<Rightarrow> real list \<Rightarrow> real \<Rightarrow> real \<Rightarrow> real \<Rightarrow> real \<Rightarrow> int \<Rightarrow> int \<Rightarrow>
   access list \<Rightarrow> nat \<Rightarrow> nat \<Rightarrow> real" where
  "parallel_pixel_2d target x_data y_data wfunc k_rad mass rho h xmin ymin pixwidthx pixwidthy
     pixcountx pixcounty schedule r c =
     run_accesses
       (\<lambda>i. in_pix (y_data ! i) (h ! i) k_rad ymin pixwidthy pixcounty r
            \<and> in_pix (x_data ! i) (h ! i) k_rad xmin pixwidthx pixcountx c)
       (\<lambda>i. contribution_2d wfunc k_rad xmin ymin pixwidthx pixwidthy pixcountx pixcounty
              (target ! i) (x_data ! i) (y_data ! i) (mass ! i) (rho ! i) (h ! i) r c)
       schedule"


section \<open>Arrays, slices and folds\<close>

lemma length_np_arange: "length (np_arange a b) = nat (b - a)"
  by (simp add: np_arange_def)

lemma nth_np_arange: "k < nat (b - a) \<Longrightarrow> np_arange a b ! k = of_int (a + int k)"
  by (simp add: np_arange_def)

lemma length_add_slice: "length (add_slice out a b vals) = length out"
  by (simp add: add_slice_def)

lemma nth_add_slice:
  "p < length out \<Longrightarrow>
   add_slice out a b vals ! p =
     (if a \<le> int p \<and> int p < b then out ! p + vals ! nat (int p - a) else out ! p)"
  by (simp add: add_slice_def)

lemma length_add_block: "length (add_block img j0 j1 i0 i1 blk) = length img"
  by (simp add: add_block_def)

lemma length_nth_add_block:
  "r < length img \<Longrightarrow> length (add_block img j0 j1 i0 i1 blk ! r) = length (img ! r)"
  by (simp add: add_block_def length_add_slice)

lemma nth_add_block:
  "r < length img \<Longrightarrow> c < length (img ! r) \<Longrightarrow>
   add_block img j0 j1 i0 i1 blk ! r ! c =
     (if j0 \<le> int r \<and> int r < j1 \<and> i0 \<le> int c \<and> int c < i1
      then img ! r ! c + blk ! nat (int r - j0) ! nat (int c - i0) else img ! r ! c)"
  by (simp add: add_block_def nth_add_slice)

lemma fold_add_block_shape:
  "length (fold (\<lambda>i img. add_block img (j0 i) (j1 i) (i0 i) (i1 i) (blk i)) js img) = length img
   \<and> (\<forall>r < length img. length (fold (\<lambda>i img. add_block img (j0 i) (j1 i) (i0 i) (i1 i) (blk i)) js img ! r) = length (img ! r))"
  by (induction js arbitrary: img) (simp_all add: length_add_block length_nth_add_block)

lemma fold_add_block_nth:
  "r < length img \<Longrightarrow> c < length (img ! r) \<Longrightarrow>
   fold (\<lambda>i img. add_block img (j0 i) (j1 i) (i0 i) (i1 i) (blk i)) js img ! r ! c =
     img ! r ! c +
     (\<Sum>i\<leftarrow>js. if j0 i \<le> int r \<and> int r < j1 i \<and> i0 i \<le> int c \<and> int c < i1 i
               then blk i ! nat (int r - j0 i) ! nat (int c - i0 i) else 0)"
proof (induction js arbitrary: img)
  case Nil
  then show ?case by simp
next
  case (Cons a js)
  have "r < length (add_block img (j0 a) (j1 a) (i0 a) (i1 a) (blk a))"
    using Cons.prems by (simp add: length_add_block)
  moreover have "c < length (add_block img (j0 a) (j1 a) (i0 a) (i1 a) (blk a) ! r)"
    using Cons.prems by (simp add: length_nth_add_block)
  ultimately show ?case
    using Cons.IH [of "add_block img (j0 a) (j1 a) (i0 a) (i1 a) (blk a)"] Cons.prems
    by (simp add: nth_add_block)
qed

lemma fold_add_slice_length:
  "length (fold (\<lambda>i out. add_slice out (a i) (b i) (vals i)) js out) = length out"
  by (induction js arbitrary: out) (simp_all add: length_add_slice)

lemma fold_add_slice_nth:
  "p < length out \<Longrightarrow>
   fold (\<lambda>i out. add_slice out (a i) (b i) (vals i)) js out ! p =
     out ! p + (\<Sum>i\<leftarrow>js. if a i \<le> int p \<and> int p < b i then vals i ! nat (int p - a i) else 0)"
proof (induction js arbitrary: out)
  case Nil
  then show ?case by simp
next
  case (Cons k js)
  then show ?case
    using Cons.IH [of "add_slice out (a k) (b k) (vals k)"]
    by (simp add: length_add_slice nth_add_slice)
qed

lemma mask_select_conv:
  assumes "length a = length msk"
  shows "mask_select a msk = map (\<lambda>i. a ! i) (filter (\<lambda>i. msk ! i) [0..<length a])"
proof -
  have z: "zip a msk = map (\<lambda>i. (a ! i, msk ! i)) [0..<length a]"
    using assms by (intro nth_equalityI) simp_all
  show ?thesis
    unfolding mask_select_def z by (simp add: filter_map comp_def)
qed

lemma np_zeros2_shape:
  "length (np_zeros2 rows cols) = nat rows"
  "r < nat rows \<Longrightarrow> length (np_zeros2 rows cols ! r) = nat cols"
  "r < nat rows \<Longrightarrow> c < nat cols \<Longrightarrow> np_zeros2 rows cols ! r ! c = 0"
  by (simp_all add: np_zeros2_def)

lemma nth_np_arange_off:
  "a \<le> int p \<Longrightarrow> int p < b \<Longrightarrow> np_arange a b ! nat (int p - a) = real p"
  "a \<le> int p \<Longrightarrow> int p < b \<Longrightarrow> nat (int p - a) < nat (b - a)"
  by (simp_all add: nth_np_arange)

lemma fast_2d_pixel:
  assumes len: "length x_data = length target" "length y_data = length target"
      "length mass = length target" "length rho = length target" "length h = length target"
    and r: "r < nat pixcounty" and c: "c < nat pixcountx"
  shows "fast_2d target x_data y_data wfunc k_rad mass rho h xmin ymin pixwidthx pixwidthy
           pixcountx pixcounty ! r ! c =
         (\<Sum>i<length target.
            contribution_2d wfunc k_rad xmin ymin pixwidthx pixwidthy pixcountx pixcounty
              (target ! i) (x_data ! i) (y_data ! i) (mass ! i) (rho ! i) (h ! i) r c)"
proof -
  let ?img = "np_zeros2 pixcounty pixcountx"
  have shape: "r < length ?img" "c < length (?img ! r)"
    using r c by (simp_all add: np_zeros2_shape)
  show ?thesis
    unfolding fast_2d_def Let_def
    apply (subst fold_add_block_nth [OF shape])
    apply (simp only: np_zeros2_shape(3) [OF r c] add_0 interv_sum_list_conv_sum_set_nat
        atLeast_upt [symmetric] length_map length_upt minus_nat.diff_0 lessThan_atLeast0)
    apply (rule sum.cong [OF refl])
    apply (simp add: len contribution_2d_def in_pix_def pix_lo_def pix_hi_def
        length_np_arange nth_np_arange_off)
    done
qed

lemma fast_2d_shape:
  "length (fast_2d target x_data y_data wfunc k_rad mass rho h xmin ymin pixwidthx pixwidthy
           pixcountx pixcounty) = nat pixcounty"
  "r < nat pixcounty \<Longrightarrow>
   length (fast_2d target x_data y_data wfunc k_rad mass rho h xmin ymin pixwidthx pixwidthy
           pixcountx pixcounty ! r) = nat pixcountx"
  unfolding fast_2d_def Let_def
  by (simp_all add: fold_add_block_shape np_zeros2_shape)

lemma sum_list_filter_index:
  "(\<Sum>k\<leftarrow>[0..<length (filter P [0..<N])]. G (filter P [0..<N] ! k))
     = (\<Sum>i<N. if P i then G i else 0)"
proof -
  let ?idx = "filter P [0..<N]"
  have "map (\<lambda>k. G (?idx ! k)) [0..<length ?idx] = map G ?idx"
    by (intro nth_equalityI) simp_all
  then have "(\<Sum>k\<leftarrow>[0..<length ?idx]. G (?idx ! k)) = sum_list (map G ?idx)"
    by simp
  also have "\<dots> = (\<Sum>i\<leftarrow>[0..<N]. if P i then G i else 0)"
    by (rule sum_list_map_filter')
  also have "\<dots> = (\<Sum>i<N. if P i then G i else 0)"
    by (simp add: interv_sum_list_conv_sum_set_nat atLeast0LessThan)
  finally show ?thesis .
qed

lemma fast_3d_cross_shape:
  "length (fast_3d_cross target x_data y_data z_data wfunc zslice k_rad mass rho h
            pixwidthx pixwidthy xmin ymin pixcountx pixcounty) = nat pixcounty"
  "r < nat pixcounty \<Longrightarrow>
   length (fast_3d_cross target x_data y_data z_data wfunc zslice k_rad mass rho h
            pixwidthx pixwidthy xmin ymin pixcountx pixcounty ! r) = nat pixcountx"
  unfolding fast_3d_cross_def Let_def
  by (simp_all add: fold_add_block_shape np_zeros2_shape)

lemma fast_3d_cross_pixel:
  assumes len: "length x_data = length target" "length y_data = length target"
      "length z_data = length target"
      "length mass = length target" "length rho = length target" "length h = length target"
    and r: "r < nat pixcounty" and c: "c < nat pixcountx"
  shows "fast_3d_cross target x_data y_data z_data wfunc zslice k_rad mass rho h
           pixwidthx pixwidthy xmin ymin pixcountx pixcounty ! r ! c =
         (\<Sum>i<length target.
            contribution_3d_cross wfunc zslice k_rad pixwidthx pixwidthy xmin ymin
              pixcountx pixcounty
              (target ! i) (x_data ! i) (y_data ! i) (z_data ! i) (mass ! i) (rho ! i) (h ! i) r c)"
proof -
  let ?img = "np_zeros2 pixcounty pixcountx"
  let ?N = "length target"
  let ?P = "\<lambda>i. \<bar>zslice - z_data ! i\<bar> < k_rad * h ! i"
  let ?fd = "map (\<lambda>i. \<bar>map ((-) zslice) z_data ! i\<bar> < k_rad * h ! i) [0..<length target]"
  let ?G = "\<lambda>i. contribution_3d_cross wfunc zslice k_rad pixwidthx pixwidthy xmin ymin
              pixcountx pixcounty
              (target ! i) (x_data ! i) (y_data ! i) (z_data ! i) (mass ! i) (rho ! i) (h ! i) r c"
  have shape: "r < length ?img" "c < length (?img ! r)"
    using r c by (simp_all add: np_zeros2_shape)
  have idx: "filter (\<lambda>i. ?fd ! i) [0..<?N] = filter ?P [0..<?N]"
    by (rule filter_cong) (simp_all add: len)
  have sel: "mask_select a ?fd = map (\<lambda>i. a ! i) (filter ?P [0..<?N])"
    if "length a = ?N" for a :: "real list"
    using mask_select_conv [of a ?fd] that idx by (simp add: len)
  have P: "?P (filter ?P [0..<?N] ! k)" and lt: "filter ?P [0..<?N] ! k < ?N"
    if "k < length (filter ?P [0..<?N])" for k
    using nth_mem [OF that] by simp_all
  have "fast_3d_cross target x_data y_data z_data wfunc zslice k_rad mass rho h
           pixwidthx pixwidthy xmin ymin pixcountx pixcounty ! r ! c
        = (\<Sum>k\<leftarrow>[0..<length (filter ?P [0..<?N])]. ?G (filter ?P [0..<?N] ! k))"
    unfolding fast_3d_cross_def Let_def
    apply (subst fold_add_block_nth [OF shape])
    apply (simp only: np_zeros2_shape(3) [OF r c] add_0)
    apply (simp only: sel len length_map length_upt minus_nat.diff_0)
    apply (rule arg_cong [where f = sum_list])
    apply (rule map_cong [OF refl])
    apply (simp add: len P lt contribution_3d_cross_def in_pix_def pix_lo_def pix_hi_def
        length_np_arange nth_np_arange_off)
    done
  also have "\<dots> = (\<Sum>i<?N. if ?P i then ?G i else 0)"
    by (rule sum_list_filter_index)
  also have "\<dots> = (\<Sum>i<?N. ?G i)"
    by (rule sum.cong) (simp_all add: contribution_3d_cross_def)
  finally show ?thesis .
qed

lemma fast_2d_cross_length:
  "length (fast_2d_cross target x_data y_data wfunc k_rad mass rho h x1 y1 x2 y2 pixcount)
     = nat pixcount"
  unfolding fast_2d_cross_def Let_def
  by (simp add: fold_add_slice_length np_zeros_def)

lemma fast_2d_cross_pixel:
  assumes len: "length x_data = length target" "length y_data = length target"
      "length mass = length target" "length rho = length target" "length h = length target"
    and p: "p < nat pixcount"
  shows "fast_2d_cross target x_data y_data wfunc k_rad mass rho h x1 y1 x2 y2 pixcount ! p =
         (\<Sum>i<length target.
            contribution_2d_cross wfunc k_rad x1 y1 x2 y2 pixcount
              (target ! i) (x_data ! i) (y_data ! i) (mass ! i) (rho ! i) (h ! i) p)"
proof -
  let ?N = "length target"
  let ?P = "\<lambda>i. 0 \<le> quad_det x1 y1 x2 y2 k_rad (x_data ! i) (y_data ! i) (h ! i)"
  let ?G = "\<lambda>i. contribution_2d_cross wfunc k_rad x1 y1 x2 y2 pixcount
              (target ! i) (x_data ! i) (y_data ! i) (mass ! i) (rho ! i) (h ! i) p"
  let ?g = "gradient x1 y1 x2 y2" and ?yi = "yint x1 y1 x2 y2"
  let ?bb = "map (\<lambda>i. 2 * ?g * (?yi - y_data ! i) - 2 * x_data ! i) [0..<?N]"
  let ?cc = "map (\<lambda>i. (x_data ! i)\<^sup>2 + (y_data ! i)\<^sup>2 - 2 * ?yi * y_data ! i + ?yi\<^sup>2
                       - (k_rad * h ! i)\<^sup>2) [0..<?N]"
  let ?det = "map (\<lambda>i. (?bb ! i)\<^sup>2 - 4 * (1 + ?g\<^sup>2) * ?cc ! i) [0..<?N]"
  let ?fd = "map ((\<le>) 0) ?det"
  have shape: "p < length (np_zeros pixcount)"
    using p by (simp add: np_zeros_def)
  have zero: "np_zeros pixcount ! p = 0"
    using p by (simp add: np_zeros_def)
  define idx where "idx = filter ?P [0..<?N]"
  have idx: "filter (\<lambda>i. ?fd ! i) [0..<?N] = idx"
    unfolding idx_def
    by (rule filter_cong)
      (simp_all add: len quad_det_def quad_bb_def quad_cc_def quad_aa_def)
  have sel: "mask_select a ?fd = map (\<lambda>i. a ! i) idx"
    if "length a = ?N" for a :: "real list"
    using mask_select_conv [of a ?fd] that idx by (simp add: len)
  have in_idx: "idx ! k < ?N \<and> ?P (idx ! k)" if "k < length idx" for k
    using nth_mem [OF that] by (simp add: idx_def)
  have "fast_2d_cross target x_data y_data wfunc k_rad mass rho h x1 y1 x2 y2 pixcount ! p
        = (\<Sum>k\<leftarrow>[0..<length idx]. ?G (idx ! k))"
    unfolding fast_2d_cross_def Let_def
    apply (subst fold_add_slice_nth [OF shape])
    apply (simp only: zero add_0)
    apply (simp only: sel len length_map length_upt minus_nat.diff_0)
    apply (rule arg_cong [where f = sum_list])
    apply (rule map_cong [OF refl])
    subgoal for k
      using in_idx [of k]
      apply (simp add: len contribution_2d_cross_def line_pix_def
        quad_det_def quad_bb_def quad_cc_def quad_aa_def
        length_np_arange nth_np_arange_off del: uminus_add_conv_diff)
      done
    done
  also have "\<dots> = (\<Sum>i<?N. if ?P i then ?G i else 0)"
    unfolding idx_def by (rule sum_list_filter_index)
  also have "\<dots> = (\<Sum>i<?N. ?G i)"
    by (rule sum.cong) (simp_all add: contribution_2d_cross_def)
  finally show ?thesis .
qed

lemma length_np_linspace: "length (np_linspace start stop num) = nat num"
  by (simp add: np_linspace_def)

lemma fold_ebind_Inl: "fold (\<lambda>i acc. ebind acc (f i)) js (Inl e) = Inl e"
  by (induction js) (simp_all add: ebind_def)

lemma fold_ebind_Inr:
  assumes "\<And>i img. f i img = Inr (g i img)"
  shows "fold (\<lambda>i acc. ebind acc (f i)) js (Inr img) = Inr (fold g js img)"
  by (induction js arbitrary: img) (simp_all add: ebind_def assms)

lemma fold_ebind_fail:
  assumes "\<And>i img. f i img = Inl e" and "js \<noteq> []"
  shows "fold (\<lambda>i acc. ebind acc (f i)) js (Inr img) = Inl e"
proof (cases js)
  case Nil
  with assms(2) show ?thesis by simp
next
  case (Cons a list)
  have step: "ebind (Inr img) (f a) = Inl e"
    by (simp add: ebind_def assms(1))
  show ?thesis
    by (simp only: Cons fold_simps step fold_ebind_Inl)
qed

lemma fast_3d_ok:
  assumes tbl: "length wfuncint = nat int_samples" "0 < int_samples"
  shows "fast_3d target x_data y_data wfuncint int_samples k_rad mass rho h xmin ymin
           pixwidthx pixwidthy pixcountx pixcounty =
         Inr (fast_2d target x_data y_data
                (\<lambda>q dim. interp_scalar q (np_linspace 0 k_rad int_samples) wfuncint)
                k_rad mass rho h xmin ymin pixwidthx pixwidthy pixcountx pixcounty)"
  unfolding fast_3d_def fast_2d_def Let_def
  apply (rule fold_ebind_Inr)
  using tbl apply (simp add: np_interp_def length_np_linspace ebind_def comp_def)
  done

lemma fast_3d_mismatch:
  assumes tbl: "length wfuncint \<noteq> nat int_samples" "0 < int_samples" and "target \<noteq> []"
  shows "fast_3d target x_data y_data wfuncint int_samples k_rad mass rho h xmin ymin
           pixwidthx pixwidthy pixcountx pixcounty =
         Inl (ValueError ''fp and xp are not of the same size.'')"
  unfolding fast_3d_def Let_def
  apply (rule fold_ebind_fail)
  using assms apply (simp_all add: np_interp_def length_np_linspace ebind_def)
  done

lemma fast_3d_empty:
  assumes tbl: "int_samples \<le> 0" and "target \<noteq> []"
  shows "fast_3d target x_data y_data wfuncint int_samples k_rad mass rho h xmin ymin
           pixwidthx pixwidthy pixcountx pixcounty =
         Inl (ValueError ''array of sample points is empty'')"
  unfolding fast_3d_def Let_def
  apply (rule fold_ebind_fail)
  using assms apply (simp_all add: np_interp_def length_np_linspace ebind_def)
  done

lemma fast_3d_no_particles:
  "fast_3d [] x_data y_data wfuncint int_samples k_rad mass rho h xmin ymin
           pixwidthx pixwidthy pixcountx pixcounty = Inr (np_zeros2 pixcounty pixcountx)"
  unfolding fast_3d_def Let_def by simp

lemma grid_check_cases:
  assumes "pixwidthx \<le> 0 \<or> pixwidthy \<le> 0 \<or> pixcountx \<le> 0 \<or> pixcounty \<le> (0::int)"
  obtains "pixwidthx \<le> (0::real)"
  | "\<not> pixwidthx \<le> 0" "pixwidthy \<le> (0::real)"
  | "\<not> pixwidthx \<le> 0" "\<not> pixwidthy \<le> 0" "pixcountx \<le> (0::int)"
  | "\<not> pixwidthx \<le> 0" "\<not> pixwidthy \<le> 0" "\<not> pixcountx \<le> 0" "pixcounty \<le> 0"
  using assms by blast

lemma interpolate_2d_invalid:
  assumes "pixwidthx \<le> 0 \<or> pixwidthy \<le> 0 \<or> pixcountx \<le> 0 \<or> pixcounty \<le> 0"
  shows "\<exists>field. offending field pixwidthx pixwidthy pixcountx pixcounty \<and>
           interpolate_2d data target x y kern pixwidthx pixwidthy xmin ymin pixcountx pixcounty
             = Inl (InvalidParameter field)"
  using assms
proof (cases rule: grid_check_cases)
  case 1
  then show ?thesis
    by (intro exI [of _ "''pixwidthx''"])
      (simp add: interpolate_2d_def InvalidParameter_def offending_def)
next
  case 2
  then show ?thesis
    by (intro exI [of _ "''pixwidthy''"])
      (simp add: interpolate_2d_def InvalidParameter_def offending_def)
next
  case 3
  then show ?thesis
    by (intro exI [of _ "''pixcountx''"])
      (simp add: interpolate_2d_def InvalidParameter_def offending_def)
next
  case 4
  then show ?thesis
    by (intro exI [of _ "''pixcounty''"])
      (simp add: interpolate_2d_def InvalidParameter_def offending_def)
qed

lemma interpolate_3d_invalid:
  assumes "pixwidthx \<le> 0 \<or> pixwidthy \<le> 0 \<or> pixcountx \<le> 0 \<or> pixcounty \<le> 0"
  shows "\<exists>field. offending field pixwidthx pixwidthy pixcountx pixcounty \<and>
           interpolate_3d data target x y kern pixwidthx pixwidthy xmin ymin pixcountx pixcounty
             int_samples = (Inl (InvalidParameter field), kern)"
  using assms
proof (cases rule: grid_check_cases)
  case 1
  then show ?thesis
    by (intro exI [of _ "''pixwidthx''"])
      (simp add: interpolate_3d_def InvalidParameter_def offending_def)
next
  case 2
  then show ?thesis
    by (intro exI [of _ "''pixwidthy''"])
      (simp add: interpolate_3d_def InvalidParameter_def offending_def)
next
  case 3
  then show ?thesis
    by (intro exI [of _ "''pixcountx''"])
      (simp add: interpolate_3d_def InvalidParameter_def offending_def)
next
  case 4
  then show ?thesis
    by (intro exI [of _ "''pixcounty''"])
      (simp add: interpolate_3d_def InvalidParameter_def offending_def)
qed

lemma interpolate_3d_cross_invalid:
  assumes "pixwidthx \<le> 0 \<or> pixwidthy \<le> 0 \<or> pixcountx \<le> 0 \<or> pixcounty \<le> 0"
  shows "\<exists>field. offending field pixwidthx pixwidthy pixcountx pixcounty \<and>
           interpolate_3d_cross data target zslice x y z kern pixwidthx pixwidthy xmin ymin
             pixcountx pixcounty = Inl (InvalidParameter field)"
  using assms
proof (cases rule: grid_check_cases)
  case 1
  then show ?thesis
    by (intro exI [of _ "''pixwidthx''"])
      (simp add: interpolate_3d_cross_def InvalidParameter_def offending_def)
next
  case 2
  then show ?thesis
    by (intro exI [of _ "''pixwidthy''"])
      (simp add: interpolate_3d_cross_def InvalidParameter_def offending_def)
next
  case 3
  then show ?thesis
    by (intro exI [of _ "''pixcountx''"])
      (simp add: interpolate_3d_cross_def InvalidParameter_def offending_def)
next
  case 4
  then show ?thesis
    by (intro exI [of _ "''pixcounty''"])
      (simp add: interpolate_3d_cross_def InvalidParameter_def offending_def)
qed

lemma np_isclose_refl: "np_isclose a a"
  by (simp add: np_isclose_def)

lemma interpolate_2d_cross_close:
  "np_isclose y2 y1 \<Longrightarrow> np_isclose x2 x1 \<Longrightarrow>
   interpolate_2d_cross data target x y kern x1 y1 x2 y2 pixcount = Inl DegenerateGeometry"
  by (simp add: interpolate_2d_cross_def DegenerateGeometry_def)

lemma interpolate_2d_cross_pixcount:
  "\<not> (np_isclose y2 y1 \<and> np_isclose x2 x1) \<Longrightarrow> pixcount \<le> 0 \<Longrightarrow>
   interpolate_2d_cross data target x y kern x1 y1 x2 y2 pixcount
     = Inl (InvalidParameter ''pixcount'')"
  by (simp add: interpolate_2d_cross_def InvalidParameter_def)


section \<open>Parameter validation\<close>

text \<open>
  C1, as stated, at a degenerate line with \<open>pixcount = 0\<close>: the claim asks for
  \<open>InvalidParameter\<close> because \<open>pixcount \<le> 0\<close>, but \<open>interpolate_2d_cross\<close> tests the
  end points first and raises the zero-length error.
\<close>

theorem C1_counterexample:
  "interpolate_2d_cross no_particles ''rho'' ''x'' ''y'' cubic_spline 0 0 0 0 0
     \<noteq> Inl (InvalidParameter ''pixcount'')"
  by (simp add: interpolate_2d_cross_close [OF np_isclose_refl np_isclose_refl]
      DegenerateGeometry_def InvalidParameter_def)

text \<open>
  C1 (amended). For every data frame and kernel: \<open>interpolate_2d\<close>, \<open>interpolate_3d\<close> and
  \<open>interpolate_3d_cross\<close> fail with \<open>InvalidParameter\<close>, naming a field that is not
  strictly positive, whenever one of \<open>pixwidthx\<close>, \<open>pixwidthy\<close>, \<open>pixcountx\<close>,
  \<open>pixcounty\<close> is \<open>\<le> 0\<close>; \<open>interpolate_2d_cross\<close> fails with \<open>DegenerateGeometry\<close> when
  \<open>(x1, y1) = (x2, y2)\<close>, and with \<open>InvalidParameter\<close> when \<open>pixcount \<le> 0\<close> and the end
  points are not both within the \<open>np.isclose\<close> tolerance of each other (otherwise the
  zero-length test, which comes first, decides). The result is the error alone: it does
  not depend on the particle data or on the kernel, no image is returned, and
  \<open>interpolate_3d\<close> leaves the kernel object, hence its column-table cache, as it was.
\<close>

theorem C1_validation:
  "(pixwidthx \<le> 0 \<or> pixwidthy \<le> 0 \<or> pixcountx \<le> 0 \<or> pixcounty \<le> 0 \<longrightarrow>
      (\<exists>field. offending field pixwidthx pixwidthy pixcountx pixcounty \<and>
         interpolate_2d data target x y kern pixwidthx pixwidthy xmin ymin pixcountx pixcounty
           = Inl (InvalidParameter field))
    \<and> (\<exists>field. offending field pixwidthx pixwidthy pixcountx pixcounty \<and>
         interpolate_3d data target x y kern_c pixwidthx pixwidthy xmin ymin pixcountx pixcounty
           int_samples = (Inl (InvalidParameter field), kern_c))
    \<and> (\<exists>field. offending field pixwidthx pixwidthy pixcountx pixcounty \<and>
         interpolate_3d_cross data target zslice x y z kern pixwidthx pixwidthy xmin ymin
           pixcountx pixcounty = Inl (InvalidParameter field)))
   \<and> (x1 = x2 \<and> y1 = y2 \<longrightarrow>
        interpolate_2d_cross data target x y kern x1 y1 x2 y2 pixcount = Inl DegenerateGeometry)
   \<and> (pixcount \<le> 0 \<and> \<not> (np_isclose y2 y1 \<and> np_isclose x2 x1) \<longrightarrow>
        interpolate_2d_cross data target x y kern x1 y1 x2 y2 pixcount
          = Inl (InvalidParameter ''pixcount''))"
proof (intro conjI impI)
  assume "x1 = x2 \<and> y1 = y2"
  then show "interpolate_2d_cross data target x y kern x1 y1 x2 y2 pixcount
               = Inl DegenerateGeometry"
    by (simp add: interpolate_2d_cross_close np_isclose_refl)
qed (simp_all add: interpolate_2d_invalid interpolate_3d_invalid interpolate_3d_cross_invalid
    interpolate_2d_cross_pixcount del: de_Morgan_conj)

theorem C1_validation_witness:
  "((0::real) \<le> 0 \<or> (1::real) \<le> 0 \<or> (480::int) \<le> 0 \<or> (480::int) \<le> 0)
   \<and> (\<exists>field. offending field 0 1 480 480 \<and>
         interpolate_2d no_particles ''rho'' ''x'' ''y'' cubic_spline 0 1 0 0 480 480
           = Inl (InvalidParameter field))
   \<and> (\<exists>field. offending field 0 1 480 480 \<and>
         interpolate_3d no_particles ''rho'' ''x'' ''y'' CubicSplineKernel 0 1 0 0 480 480 1000
           = (Inl (InvalidParameter field), CubicSplineKernel))
   \<and> (\<exists>field. offending field 0 1 480 480 \<and>
         interpolate_3d_cross no_particles ''rho'' 0 ''x'' ''y'' ''z'' cubic_spline 0 1 0 0
           480 480 = Inl (InvalidParameter field))
   \<and> interpolate_2d_cross no_particles ''rho'' ''x'' ''y'' cubic_spline 0 0 0 0 500
       = Inl DegenerateGeometry
   \<and> (0::int) \<le> 0 \<and> \<not> (np_isclose 1 0 \<and> np_isclose 1 0)
   \<and> interpolate_2d_cross no_particles ''rho'' ''x'' ''y'' cubic_spline 0 0 1 1 0
       = Inl (InvalidParameter ''pixcount'')"
  using
    C1_validation [where pixwidthx = 0 and pixwidthy = 1 and pixcountx = 480
      and pixcounty = 480 and data = no_particles and target = "''rho''" and x = "''x''"
      and y = "''y''" and z = "''z''" and kern = cubic_spline and kern_c = CubicSplineKernel
      and xmin = 0 and ymin = 0 and zslice = 0 and int_samples = 1000
      and ?x1.0 = 0 and ?y1.0 = 0 and ?x2.0 = 0 and ?y2.0 = 0 and pixcount = 500]
    C1_validation [where pixwidthx = 1 and pixwidthy = 1 and pixcountx = 480
      and pixcounty = 480 and data = no_particles and target = "''rho''" and x = "''x''"
      and y = "''y''" and z = "''z''" and kern = cubic_spline and kern_c = CubicSplineKernel
      and xmin = 0 and ymin = 0 and zslice = 0 and int_samples = 1000
      and ?x1.0 = 0 and ?y1.0 = 0 and ?x2.0 = 1 and ?y2.0 = 1 and pixcount = 0]
  by (simp add: np_isclose_def)

text \<open>
  C10. \<open>interpolate_2d_cross\<close> decides degeneracy with \<open>np.isclose\<close>: the end points
  \<open>(0, 0)\<close> and \<open>(1e-9, 0)\<close> differ, yet the call raises the zero-length error, for every
  data frame, kernel and pixel count.
\<close>

theorem C10_approximate_degeneracy:
  "((0::real), (0::real)) \<noteq> (1 / 10 ^ 9, 0)
   \<and> interpolate_2d_cross data target x y kern 0 0 (1 / 10 ^ 9) 0 pixcount
       = Inl DegenerateGeometry"
  by (simp add: interpolate_2d_cross_def DegenerateGeometry_def np_isclose_def)


section \<open>The column table\<close>

lemma fold_coldens:
  "fold (\<lambda>j coldens. if j = 0 \<or> j = 99 then coldens + 0.5 * y j * dz else coldens + y j * dz)
     [0..<n] acc
   = acc + (\<Sum>j<n. (if j = 0 \<or> j = 99 then 1 / 2 else 1) * y j * (dz::real))"
  by (induction n arbitrary: acc) (simp_all add: algebra_simps)

lemma fold_store_length:
  "length (fold (\<lambda>i res. res[i := g i res]) js res) = length res"
  by (induction js arbitrary: res) simp_all

lemma fold_store_nth:
  "n \<le> length res \<Longrightarrow>
   fold (\<lambda>i res. res[i := g i]) [0..<n] res ! k = (if k < n then g k else res ! k)"
proof (induction n)
  case 0
  then show ?case by simp
next
  case (Suc n)
  then show ?case
    by (simp add: fold_store_length nth_list_update)
qed

lemma int_func_table:
  assumes "0 \<le> samples"
  shows "\<exists>tbl. int_func radius samples wfunc = Inr tbl \<and> length tbl = nat samples + 1
           \<and> (\<forall>i<nat samples. tbl ! i = column_entry wfunc radius samples i)
           \<and> tbl ! nat samples = 0"
proof -
  let ?g = "\<lambda>i. 2 * (0 + (\<Sum>j<100. (if j = 0 \<or> j = 99 then 1 / 2 else 1)
                * wfunc (sqrt (of_nat i * (radius * radius / of_int samples)
                               + of_nat j * (sqrt (radius * radius
                                   - of_nat i * (radius * radius / of_int samples)) / 99)
                                 * (of_nat j * (sqrt (radius * radius
                                   - of_nat i * (radius * radius / of_int samples)) / 99)))) 3
                * (sqrt (radius * radius - of_nat i * (radius * radius / of_int samples)) / 99)))"
  let ?res = "fold (\<lambda>i res. res[i := ?g i]) [0..<nat samples] (np_zeros (samples + 1))"
  have eq: "int_func radius samples wfunc = Inr (?res[nat samples := 0])"
    using assms unfolding int_func_def Let_def
    by (simp only: fold_coldens) simp
  have len: "length ?res = nat samples + 1"
    using assms by (simp add: fold_store_length np_zeros_def nat_add_distrib)
  have entry: "?res ! i = column_entry wfunc radius samples i" if "i < nat samples" for i
  proof -
    have "?res ! i = ?g i"
      using that assms by (subst fold_store_nth) (simp_all add: np_zeros_def)
    also have "\<dots> = column_entry wfunc radius samples i"
      by (simp add: column_entry_def trapezoid_def power2_eq_square Let_def)
    finally show ?thesis .
  qed
  show ?thesis
    using eq len entry by (intro exI [of _ "?res[nat samples := 0]"]) simp
qed

lemma cache_ok_init: "cache_ok BaseKernel_init" "cache_ok CubicSplineKernel"
  by (simp_all add: cache_ok_def BaseKernel_init_def CubicSplineKernel_def)

lemma get_column_kernel_result:
  assumes "cache_ok self"
  shows "fst (get_column_kernel self samples) = int_func (get_radius self) samples (w self)"
  using assms
  by (auto simp: get_column_kernel_def cache_ok_def split: option.splits sum.splits)

lemma get_column_kernel_state:
  assumes "cache_ok self"
  shows "cache_ok (snd (get_column_kernel self samples))"
    and "get_radius (snd (get_column_kernel self samples)) = get_radius self"
    and "w (snd (get_column_kernel self samples)) = w self"
  using assms
  by (auto simp: get_column_kernel_def cache_ok_def split: option.splits sum.splits)

text \<open>
  C3. On a kernel object whose cache is as \<open>get_column_kernel\<close> leaves it, and for
  \<open>samples > 0\<close>, \<open>get_column_kernel\<close> returns \<open>samples + 1\<close> numbers; entry \<open>i < samples\<close> is
  twice the 100-point composite trapezoidal approximation of the integral of
  \<open>w(sqrt(q_xy\<^sup>2 + q_z\<^sup>2), 3)\<close> over \<open>[0, sqrt(r\<^sup>2 - q_xy\<^sup>2)]\<close> at \<open>q_xy\<^sup>2 = i \<sqdot> r\<^sup>2 / samples\<close>,
  and entry \<open>samples\<close> is 0. (\<open>cache_ok_init\<close> and \<open>get_column_kernel_state\<close>: a new kernel
  object satisfies \<open>cache_ok\<close>, and \<open>get_column_kernel\<close> keeps it.)
\<close>

theorem C3_column_table:
  assumes "cache_ok self" and "0 < samples"
  shows "\<exists>tbl. fst (get_column_kernel self samples) = Inr tbl
           \<and> length tbl = nat samples + 1
           \<and> (\<forall>i<nat samples. tbl ! i = column_entry (w self) (get_radius self) samples i)
           \<and> tbl ! nat samples = 0"
proof -
  have "0 \<le> samples"
    using assms(2) by simp
  from int_func_table [OF this, of "get_radius self" "w self"]
  show ?thesis
    by (simp add: get_column_kernel_result [OF assms(1)])
qed

theorem C3_column_table_witness:
  "cache_ok CubicSplineKernel \<and> (0::int) < 1
   \<and> (\<exists>tbl. fst (get_column_kernel CubicSplineKernel 1) = Inr tbl
          \<and> length tbl = 2
          \<and> (\<forall>i<1. tbl ! i = column_entry CubicSplineKernel_w 2 1 i)
          \<and> tbl ! 1 = 0)"
  using C3_column_table [of CubicSplineKernel 1]
  by (simp add: cache_ok_def CubicSplineKernel_def eval_nat_numeral)


section \<open>Compact support\<close>

lemma CubicSplineKernel_w_zero: "2 \<le> q \<Longrightarrow> CubicSplineKernel_w q ndim = 0"
  by (simp add: CubicSplineKernel_w_def Let_def)

lemma fast_2d_single:
  assumes "r < nat pixcounty" and "c < nat pixcountx"
  shows "fast_2d [t] [xa] [ya] wfunc k_rad [m] [rh] [hh] xmin ymin pixwidthx pixwidthy
           pixcountx pixcounty ! r ! c
         = contribution_2d wfunc k_rad xmin ymin pixwidthx pixwidthy pixcountx pixcounty
             t xa ya m rh hh r c"
  using fast_2d_pixel [of "[xa]" "[t]" "[ya]" "[m]" "[rh]" "[hh]" r pixcounty c pixcountx
      wfunc k_rad xmin ymin pixwidthx pixwidthy] assms
  by simp

lemma fast_3d_cross_single:
  assumes "r < nat pixcounty" and "c < nat pixcountx"
  shows "fast_3d_cross [t] [xa] [ya] [za] wfunc zslice k_rad [m] [rh] [hh] pixwidthx pixwidthy
           xmin ymin pixcountx pixcounty ! r ! c
         = contribution_3d_cross wfunc zslice k_rad pixwidthx pixwidthy xmin ymin
             pixcountx pixcounty t xa ya za m rh hh r c"
  using fast_3d_cross_pixel [of "[xa]" "[t]" "[ya]" "[za]" "[m]" "[rh]" "[hh]" r pixcounty c
      pixcountx wfunc zslice k_rad pixwidthx pixwidthy xmin ymin] assms
  by simp

lemma fast_2d_cross_single:
  assumes "p < nat pixcount"
  shows "fast_2d_cross [t] [xa] [ya] wfunc k_rad [m] [rh] [hh] x1 y1 x2 y2 pixcount ! p
         = contribution_2d_cross wfunc k_rad x1 y1 x2 y2 pixcount t xa ya m rh hh p"
  using fast_2d_cross_pixel [of "[xa]" "[t]" "[ya]" "[m]" "[rh]" "[hh]" p pixcount
      wfunc k_rad x1 y1 x2 y2] assms
  by simp

lemma fast_3d_single:
  assumes "length wfuncint = nat int_samples" and "0 < int_samples"
    and "r < nat pixcounty" and "c < nat pixcountx"
  shows "\<exists>img. fast_3d [t] [xa] [ya] wfuncint int_samples k_rad [m] [rh] [hh] xmin ymin
                  pixwidthx pixwidthy pixcountx pixcounty = Inr img
           \<and> img ! r ! c = contribution_3d wfuncint int_samples k_rad xmin ymin pixwidthx
                 pixwidthy pixcountx pixcounty t xa ya m rh hh r c"
  using assms
  by (simp add: fast_3d_ok fast_2d_single contribution_2d_def contribution_3d_def)

lemma normalized_distance:
  assumes "0 < hh" and "k * hh \<le> sqrt (a + b)"
  shows "k \<le> sqrt (a * (1 / hh\<^sup>2) + b * (1 / hh\<^sup>2))"
proof -
  have "a * (1 / hh\<^sup>2) + b * (1 / hh\<^sup>2) = (a + b) / hh\<^sup>2"
    by (simp add: add_divide_distrib)
  then have "sqrt (a * (1 / hh\<^sup>2) + b * (1 / hh\<^sup>2)) = sqrt (a + b) / hh"
    using assms(1) by (simp add: real_sqrt_divide)
  with assms show ?thesis
    by (simp add: pos_le_divide_eq)
qed

lemma interp_seg_right:
  assumes "length xp = length fp" and "xp \<noteq> []" and "\<forall>e\<in>set xp. e \<le> x"
  shows "interp_seg x xp fp = last fp"
  using assms
proof (induction x xp fp rule: interp_seg.induct)
  case (1 x x0 x1 xs f0 f1 fs)
  then show ?case by simp
next
  case (2 x x0 f0 fs)
  then show ?case by simp
qed simp_all

lemma np_linspace_bounds:
  assumes "2 \<le> num" and "0 \<le> stop"
  shows "\<forall>e\<in>set (np_linspace 0 stop num). 0 \<le> e \<and> e \<le> stop"
proof
  fix e assume "e \<in> set (np_linspace 0 stop num)"
  then obtain i where i: "i < nat num" and e: "e = of_nat i * (stop / of_int (num - 1))"
    using assms by (auto simp: np_linspace_def)
  have pos: "0 < (of_int (num - 1) :: real)"
    using assms by simp
  have "real i \<le> of_int (num - 1)"
    using i assms by (simp add: of_int_diff)
  then have "real i * stop \<le> of_int (num - 1) * stop"
    using assms by (intro mult_right_mono) simp_all
  then have "e \<le> stop"
    unfolding e using pos by (simp add: pos_divide_le_eq mult.commute)
  moreover have "0 \<le> e"
    unfolding e using assms pos by simp
  ultimately show "0 \<le> e \<and> e \<le> stop" by simp
qed

lemma interp_scalar_beyond:
  assumes "length fp = nat num" and "2 \<le> num" and "0 \<le> stop" and "stop \<le> x"
  shows "interp_scalar x (np_linspace 0 stop num) fp = last fp"
proof -
  let ?xp = "np_linspace 0 stop num"
  have ne: "?xp \<noteq> []" and len: "length ?xp = length fp"
    using assms by (auto simp: np_linspace_def)
  have bnd: "\<forall>e\<in>set ?xp. 0 \<le> e \<and> e \<le> x"
    using np_linspace_bounds [OF assms(2,3)] assms(4) by force
  have "hd ?xp \<le> x"
    using bnd hd_in_set [OF ne] by blast
  then have "\<not> x < hd ?xp"
    by simp
  moreover have "interp_seg x ?xp fp = last fp"
    using bnd by (intro interp_seg_right len ne) simp
  ultimately show ?thesis
    by (simp add: interp_scalar_def)
qed

lemma contribution_2d_zero:
  assumes "0 < hh" and "\<And>q. k_rad \<le> q \<Longrightarrow> wfunc q 2 = 0"
    and "k_rad * hh \<le> sqrt ((pixel_center xmin pixwidthx c - xa)\<^sup>2
                            + (pixel_center ymin pixwidthy r - ya)\<^sup>2)"
  shows "contribution_2d wfunc k_rad xmin ymin pixwidthx pixwidthy pixcountx pixcounty
           t xa ya m rh hh r c = 0"
proof -
  let ?dx = "xmin + (of_nat c + 0.5) * pixwidthx - xa"
  let ?dy = "ymin + (of_nat r + 0.5) * pixwidthy - ya"
  have "k_rad \<le> sqrt (?dx\<^sup>2 * (1 / hh\<^sup>2) + ?dy * ?dy * (1 / hh\<^sup>2))"
    using assms(3)
    by (intro normalized_distance [OF assms(1)]) (simp add: pixel_center_def power2_eq_square)
  then have "wfunc (sqrt (?dx\<^sup>2 * (1 / hh\<^sup>2) + ?dy * ?dy * (1 / hh\<^sup>2))) 2 = 0"
    by (rule assms(2))
  then show ?thesis
    by (simp only: contribution_2d_def mult_zero_left if_cancel)
qed

lemma contribution_3d_zero:
  assumes "0 < hh" and "length wfuncint = nat int_samples" and "2 \<le> int_samples"
    and "last wfuncint = 0" and "0 \<le> k_rad"
    and "k_rad * hh \<le> sqrt ((pixel_center xmin pixwidthx c - xa)\<^sup>2
                            + (pixel_center ymin pixwidthy r - ya)\<^sup>2)"
  shows "contribution_3d wfuncint int_samples k_rad xmin ymin pixwidthx pixwidthy
           pixcountx pixcounty t xa ya m rh hh r c = 0"
proof -
  let ?dx = "xmin + (of_nat c + 0.5) * pixwidthx - xa"
  let ?dy = "ymin + (of_nat r + 0.5) * pixwidthy - ya"
  let ?q = "sqrt (?dx\<^sup>2 * (1 / hh\<^sup>2) + ?dy * ?dy * (1 / hh\<^sup>2))"
  have "k_rad \<le> ?q"
    using assms(6)
    by (intro normalized_distance [OF assms(1)]) (simp add: pixel_center_def power2_eq_square)
  then have "interp_scalar ?q (np_linspace 0 k_rad int_samples) wfuncint = 0"
    using assms by (simp add: interp_scalar_beyond)
  then show ?thesis
    by (simp only: contribution_3d_def mult_zero_left if_cancel)
qed

lemma contribution_3d_cross_zero:
  assumes "0 < hh" and "\<And>q. k_rad \<le> q \<Longrightarrow> wfunc q 3 = 0"
    and "k_rad * hh \<le> sqrt ((pixel_center xmin pixwidthx c - xa)\<^sup>2
                            + (pixel_center ymin pixwidthy r - ya)\<^sup>2 + (zslice - za)\<^sup>2)"
  shows "contribution_3d_cross wfunc zslice k_rad pixwidthx pixwidthy xmin ymin
           pixcountx pixcounty t xa ya za m rh hh r c = 0"
proof -
  let ?dx = "xmin + (of_nat c + 0.5) * pixwidthx - xa"
  let ?dy = "ymin + (of_nat r + 0.5) * pixwidthy - ya"
  let ?q2 = "(?dx\<^sup>2 * (1 / hh\<^sup>2) + (zslice - za)\<^sup>2 * (1 / hh\<^sup>2))
               + ?dy * ?dy * (1 / hh\<^sup>2)"
  have eq: "?q2 = (?dx\<^sup>2 + (zslice - za)\<^sup>2) * (1 / hh\<^sup>2) + ?dy * ?dy * (1 / hh\<^sup>2)"
    by (simp add: algebra_simps)
  have s: "(?dx\<^sup>2 + (zslice - za)\<^sup>2) + ?dy * ?dy
             = (pixel_center xmin pixwidthx c - xa)\<^sup>2
               + (pixel_center ymin pixwidthy r - ya)\<^sup>2 + (zslice - za)\<^sup>2"
    by (simp add: pixel_center_def power2_eq_square)
  have "k_rad * hh \<le> sqrt ((?dx\<^sup>2 + (zslice - za)\<^sup>2) + ?dy * ?dy)"
    using assms(3) by (simp only: s)
  then have "k_rad \<le> sqrt ((?dx\<^sup>2 + (zslice - za)\<^sup>2) * (1 / hh\<^sup>2) + ?dy * ?dy * (1 / hh\<^sup>2))"
    by (rule normalized_distance [OF assms(1)])
  then have "k_rad \<le> sqrt ?q2"
    by (simp only: eq)
  then have "wfunc (sqrt ?q2) 3 = 0"
    by (rule assms(2))
  then show ?thesis
    by (simp only: contribution_3d_cross_def mult_zero_right if_cancel)
qed

lemma contribution_2d_cross_zero:
  assumes "0 < hh" and "\<And>q. k_rad \<le> q \<Longrightarrow> wfunc q 2 = 0"
    and "k_rad * hh \<le> sqrt ((pixel_center x1 ((x2 - x1) / of_int pixcount) p - xa)\<^sup>2
            + (gradient x1 y1 x2 y2 * pixel_center x1 ((x2 - x1) / of_int pixcount) p
               + yint x1 y1 x2 y2 - ya)\<^sup>2)"
  shows "contribution_2d_cross wfunc k_rad x1 y1 x2 y2 pixcount t xa ya m rh hh p = 0"
proof -
  let ?xp = "x1 + (of_nat p + 0.5) * ((x2 - x1) / of_int pixcount)"
  let ?dx = "?xp - xa"
  let ?dy = "gradient x1 y1 x2 y2 * ?xp + yint x1 y1 x2 y2 - ya"
  have eq: "(?dx * ?dx + ?dy * ?dy) * (1 / (hh * hh))
              = ?dx * ?dx * (1 / hh\<^sup>2) + ?dy * ?dy * (1 / hh\<^sup>2)"
    by (simp add: power2_eq_square add_divide_distrib)
  have "k_rad \<le> sqrt (?dx * ?dx * (1 / hh\<^sup>2) + ?dy * ?dy * (1 / hh\<^sup>2))"
    using assms(3)
    by (intro normalized_distance [OF assms(1)]) (simp add: pixel_center_def power2_eq_square)
  then have "k_rad \<le> sqrt ((?dx * ?dx + ?dy * ?dy) * (1 / (hh * hh)))"
    by (simp only: eq)
  then have "wfunc (sqrt ((?dx * ?dx + ?dy * ?dy) * (1 / (hh * hh)))) 2 = 0"
    by (rule assms(2))
  then show ?thesis
    by (simp only: contribution_2d_cross_def mult_zero_left if_cancel)
qed

text \<open>
  C4. The cubic-spline kernel has radius 2 and its weight is 0 for every \<open>q \<ge> 2\<close>, in
  every dimension. Consequently a particle with smoothing length \<open>hh > 0\<close> adds exactly 0
  to a pixel whose centre lies at distance at least \<open>2 \<sqdot> hh\<close> from it: in \<open>_fast_2d\<close>, in
  \<open>_fast_2d_cross\<close> (the pixel centre on the line), and in \<open>_fast_3d_cross\<close> (the pixel
  centre in the plane \<open>z = zslice\<close>). \<open>_fast_3d\<close> does not call the weight function but
  interpolates a table: with a table as long as its abscissas (at least two) whose last
  entry is the zero sentinel, it returns an image and the same holds. The image of one
  particle is what that particle contributes to an image of many (\<open>fast_2d_pixel\<close>,
  \<open>fast_2d_cross_pixel\<close>, \<open>fast_3d_cross_pixel\<close> with \<open>fast_2d_single\<close> and its siblings).
\<close>

theorem C4_compact_support:
  assumes "0 < hh"
  shows "get_radius CubicSplineKernel = 2
   \<and> (2 \<le> q \<longrightarrow> w CubicSplineKernel q ndim = 0)
   \<and> (r < nat pixcounty \<and> c < nat pixcountx
        \<and> 2 * hh \<le> sqrt ((pixel_center xmin pixwidthx c - xa)\<^sup>2
                          + (pixel_center ymin pixwidthy r - ya)\<^sup>2)
      \<longrightarrow> fast_2d [t] [xa] [ya] (w CubicSplineKernel) (get_radius CubicSplineKernel)
            [m] [rh] [hh] xmin ymin pixwidthx pixwidthy pixcountx pixcounty ! r ! c = 0)
   \<and> (p < nat pixcount
        \<and> 2 * hh \<le> sqrt ((pixel_center x1 ((x2 - x1) / of_int pixcount) p - xa)\<^sup>2
              + (gradient x1 y1 x2 y2 * pixel_center x1 ((x2 - x1) / of_int pixcount) p
                 + yint x1 y1 x2 y2 - ya)\<^sup>2)
      \<longrightarrow> fast_2d_cross [t] [xa] [ya] (w CubicSplineKernel) (get_radius CubicSplineKernel)
            [m] [rh] [hh] x1 y1 x2 y2 pixcount ! p = 0)
   \<and> (length tbl = nat int_samples \<and> 2 \<le> int_samples \<and> last tbl = 0
        \<and> r < nat pixcounty \<and> c < nat pixcountx
        \<and> 2 * hh \<le> sqrt ((pixel_center xmin pixwidthx c - xa)\<^sup>2
                          + (pixel_center ymin pixwidthy r - ya)\<^sup>2)
      \<longrightarrow> (\<exists>img. fast_3d [t] [xa] [ya] tbl int_samples (get_radius CubicSplineKernel)
                   [m] [rh] [hh] xmin ymin pixwidthx pixwidthy pixcountx pixcounty = Inr img
                 \<and> img ! r ! c = 0))
   \<and> (r < nat pixcounty \<and> c < nat pixcountx
        \<and> 2 * hh \<le> sqrt ((pixel_center xmin pixwidthx c - xa)\<^sup>2
                          + (pixel_center ymin pixwidthy r - ya)\<^sup>2 + (zslice - za)\<^sup>2)
      \<longrightarrow> fast_3d_cross [t] [xa] [ya] [za] (w CubicSplineKernel) zslice
            (get_radius CubicSplineKernel) [m] [rh] [hh] pixwidthx pixwidthy xmin ymin
            pixcountx pixcounty ! r ! c = 0)"
proof -
  have kern: "get_radius CubicSplineKernel = 2" "w CubicSplineKernel = CubicSplineKernel_w"
    by (simp_all add: CubicSplineKernel_def)
  have col: "\<exists>img. fast_3d [t] [xa] [ya] tbl int_samples 2 [m] [rh] [hh] xmin ymin pixwidthx
                     pixwidthy pixcountx pixcounty = Inr img \<and> img ! r ! c = 0"
    if "length tbl = nat int_samples" "2 \<le> int_samples" "last tbl = 0"
      "r < nat pixcounty" "c < nat pixcountx"
      "2 * hh \<le> sqrt ((pixel_center xmin pixwidthx c - xa)\<^sup>2
                       + (pixel_center ymin pixwidthy r - ya)\<^sup>2)"
  proof -
    have "0 < int_samples" using that(2) by simp
    from fast_3d_single [OF that(1) this that(4,5),
        of t xa ya 2 m rh hh xmin ymin pixwidthx pixwidthy]
    obtain img where img: "fast_3d [t] [xa] [ya] tbl int_samples 2 [m] [rh] [hh] xmin ymin
          pixwidthx pixwidthy pixcountx pixcounty = Inr img"
      "img ! r ! c = contribution_3d tbl int_samples 2 xmin ymin pixwidthx pixwidthy
          pixcountx pixcounty t xa ya m rh hh r c"
      by blast
    have "contribution_3d tbl int_samples 2 xmin ymin pixwidthx pixwidthy
          pixcountx pixcounty t xa ya m rh hh r c = 0"
      using that assms by (intro contribution_3d_zero) simp_all
    with img show ?thesis
      by simp
  qed
  show ?thesis
    unfolding kern
    using assms col
    by (simp add: CubicSplineKernel_w_zero fast_2d_single fast_2d_cross_single
        fast_3d_cross_single contribution_2d_zero contribution_2d_cross_zero
        contribution_3d_cross_zero)
qed

theorem C4_compact_support_witness:
  "(0::real) < 1
   \<and> get_radius CubicSplineKernel = 2
   \<and> (2::real) \<le> 3 \<and> w CubicSplineKernel 3 2 = 0
   \<and> (4::nat) < nat 6 \<and> (3::nat) < nat 6
   \<and> 2 * 1 \<le> sqrt ((pixel_center 0 1 3 - 1 / 2)\<^sup>2 + (pixel_center 0 1 4 - 1 / 2)\<^sup>2)
   \<and> fast_2d [1] [1 / 2] [1 / 2] (w CubicSplineKernel) (get_radius CubicSplineKernel)
        [1] [1] [1] 0 0 1 1 6 6 ! 4 ! 3 = 0
   \<and> 2 * 1 \<le> sqrt ((pixel_center 0 ((6 - 0) / of_int 6) 3 - 1 / 2)\<^sup>2
            + (gradient 0 (9 / 2) 6 (9 / 2) * pixel_center 0 ((6 - 0) / of_int 6) 3
               + yint 0 (9 / 2) 6 (9 / 2) - 1 / 2)\<^sup>2)
   \<and> fast_2d_cross [1] [1 / 2] [1 / 2] (w CubicSplineKernel) (get_radius CubicSplineKernel)
        [1] [1] [1] 0 (9 / 2) 6 (9 / 2) 6 ! 3 = 0
   \<and> length [1, 0 :: real] = nat 2 \<and> last [1, 0 :: real] = 0
   \<and> (\<exists>img. fast_3d [1] [1 / 2] [1 / 2] [1, 0] 2 (get_radius CubicSplineKernel)
                [1] [1] [1] 0 0 1 1 6 6 = Inr img \<and> img ! 4 ! 3 = 0)
   \<and> 2 * 1 \<le> sqrt ((pixel_center 0 1 3 - 1 / 2)\<^sup>2 + (pixel_center 0 1 4 - 1 / 2)\<^sup>2
                     + (0 - 0)\<^sup>2)
   \<and> fast_3d_cross [1] [1 / 2] [1 / 2] [0] (w CubicSplineKernel) 0
        (get_radius CubicSplineKernel) [1] [1] [1] 1 1 0 0 6 6 ! 4 ! 3 = 0"
  using C4_compact_support [where hh = 1 and q = 3 and ndim = 2 and r = 4 and c = 3
      and pixcountx = 6 and pixcounty = 6 and xmin = 0 and ymin = 0 and pixwidthx = 1
      and pixwidthy = 1 and xa = "1 / 2" and ya = "1 / 2" and t = 1 and m = 1 and rh = 1
      and tbl = "[1, 0]" and int_samples = 2 and zslice = 0 and za = 0
      and p = 3 and pixcount = 6 and ?x1.0 = 0 and ?y1.0 = "9 / 2"
      and ?x2.0 = 6 and ?y2.0 = "9 / 2"]
  by (simp add: pixel_center_def gradient_def yint_def CubicSplineKernel_def)


section \<open>Images as sums of one-particle images\<close>

lemma image_eqI:
  assumes "length A = R" and "length B = R"
    and "\<And>r. r < R \<Longrightarrow> length (A ! r) = C" and "\<And>r. r < R \<Longrightarrow> length (B ! r) = C"
    and "\<And>r c. r < R \<Longrightarrow> c < C \<Longrightarrow> A ! r ! c = B ! r ! (c::nat)"
  shows "A = (B :: 'a list list)"
proof (rule nth_equalityI)
  show "length A = length B"
    using assms(1,2) by simp
next
  fix r assume "r < length A"
  then have r: "r < R" using assms(1) by simp
  show "A ! r = B ! r"
    using assms(3,4,5) r by (intro nth_equalityI) simp_all
qed

lemma to_numpy_length: "to_numpy data label = Inr a \<Longrightarrow> length a = nrows data"
  by (auto simp: to_numpy_def split: option.splits)

lemma fast_3d_cross_additive:
  assumes len: "length x_data = length target" "length y_data = length target"
      "length z_data = length target"
      "length mass = length target" "length rho = length target" "length h = length target"
    and r: "r < nat pixcounty" and c: "c < nat pixcountx"
  shows "fast_3d_cross target x_data y_data z_data wfunc zslice k_rad mass rho h
           pixwidthx pixwidthy xmin ymin pixcountx pixcounty ! r ! c =
         (\<Sum>i<length target.
            fast_3d_cross [target ! i] [x_data ! i] [y_data ! i] [z_data ! i] wfunc zslice k_rad
              [mass ! i] [rho ! i] [h ! i] pixwidthx pixwidthy xmin ymin
              pixcountx pixcounty ! r ! c)"
  unfolding fast_3d_cross_pixel [OF len r c] fast_3d_cross_single [OF r c] ..

lemma fast_2d_cross_additive:
  assumes len: "length x_data = length target" "length y_data = length target"
      "length mass = length target" "length rho = length target" "length h = length target"
    and p: "p < nat pixcount"
  shows "fast_2d_cross target x_data y_data wfunc k_rad mass rho h x1 y1 x2 y2 pixcount ! p =
         (\<Sum>i<length target.
            fast_2d_cross [target ! i] [x_data ! i] [y_data ! i] wfunc k_rad
              [mass ! i] [rho ! i] [h ! i] x1 y1 x2 y2 pixcount ! p)"
  unfolding fast_2d_cross_pixel [OF len p] fast_2d_cross_single [OF p] ..


section \<open>The particle loop on several threads\<close>

text \<open>
  Run one after another, in any order, the iterations are a schedule of the loop and leave
  in the pixel the sum of what they add.
\<close>

lemma fold_serial:
  "pixel (fold (access_step touches added) (serial order) s)
   = pixel s + (\<Sum>i\<leftarrow>order. if touches i then added i else 0)"
proof (induction order arbitrary: s)
  case Nil
  show ?case by (simp add: serial_def)
next
  case (Cons i order)
  have "serial (i # order) = Load i # Store i # serial order"
    by (simp add: serial_def)
  then show ?case
    using Cons.IH by (simp add: serial_def)
qed

lemma run_accesses_serial:
  "run_accesses touches added (serial order) = (\<Sum>i\<leftarrow>order. if touches i then added i else 0)"
  by (simp add: run_accesses_def fold_serial)

lemma serial_Cons: "serial (i # order) = Load i # Store i # serial order"
  by (simp add: serial_def)

lemma serial_Nil: "serial [] = []"
  by (simp add: serial_def)

lemma filter_serial_other:
  "i \<notin> set order \<Longrightarrow> filter (\<lambda>a. a = Load i \<or> a = Store i) (serial order) = []"
  by (induction order) (simp_all add: serial_Cons serial_Nil)

lemma filter_serial:
  "distinct order \<Longrightarrow> i \<in> set order \<Longrightarrow>
   filter (\<lambda>a. a = Load i \<or> a = Store i) (serial order) = [Load i, Store i]"
proof (induction order)
  case Nil
  then show ?case by simp
next
  case (Cons j order)
  show ?case
  proof (cases "j = i")
    case True
    then have "i \<notin> set order" using Cons.prems(1) by simp
    then show ?thesis
      using True by (simp add: serial_Cons filter_serial_other)
  next
    case False
    then have "i \<in> set order" and "distinct order"
      using Cons.prems by simp_all
    then show ?thesis
      using False Cons.IH by (simp add: serial_Cons)
  qed
qed

lemma set_serial: "a \<in> set (serial order) \<Longrightarrow> \<exists>i\<in>set order. a = Load i \<or> a = Store i"
  by (induction order) (auto simp: serial_Cons serial_Nil)


lemma schedule_ok_serial:
  assumes d: "distinct order" and s: "set order = {..<n}"
  shows "schedule_ok n (serial order)"
proof -
  have one: "\<forall>i\<in>set [0..<n].
      filter (\<lambda>a. a = Load i \<or> a = Store i) (serial order) = [Load i, Store i]"
  proof
    fix i assume "i \<in> set [0..<n]"
    then have "i \<in> set order" unfolding s by simp
    with d show "filter (\<lambda>a. a = Load i \<or> a = Store i) (serial order) = [Load i, Store i]"
      by (rule filter_serial)
  qed
  have two: "\<forall>a\<in>set (serial order). case a of Load i \<Rightarrow> i < n | Store i \<Rightarrow> i < n"
  proof
    fix a assume "a \<in> set (serial order)"
    then obtain i where "i \<in> set order" and "a = Load i \<or> a = Store i"
      using set_serial by blast
    then show "case a of Load i \<Rightarrow> i < n | Store i \<Rightarrow> i < n"
      unfolding s by auto
  qed
  show ?thesis
    unfolding schedule_ok_def list_all_iff using one two ..
qed

text \<open>
  For \<open>_fast_2d\<close> that sum is the pixel of \<open>fast_2d\<close>: in any order of the particles, the
  run one after another computes the same image.
\<close>

lemma parallel_pixel_2d_serial:
  assumes len: "length x_data = length target" "length y_data = length target"
      "length mass = length target" "length rho = length target" "length h = length target"
    and r: "r < nat pixcounty" and c: "c < nat pixcountx"
    and order: "distinct order" "set order = {..<length target}"
  shows "parallel_pixel_2d target x_data y_data wfunc k_rad mass rho h xmin ymin
           pixwidthx pixwidthy pixcountx pixcounty (serial order) r c
         = fast_2d target x_data y_data wfunc k_rad mass rho h xmin ymin pixwidthx pixwidthy
             pixcountx pixcounty ! r ! c"
proof -
  have "parallel_pixel_2d target x_data y_data wfunc k_rad mass rho h xmin ymin
           pixwidthx pixwidthy pixcountx pixcounty (serial order) r c
        = (\<Sum>i\<leftarrow>order. contribution_2d wfunc k_rad xmin ymin pixwidthx pixwidthy
              pixcountx pixcounty (target ! i) (x_data ! i) (y_data ! i) (mass ! i) (rho ! i)
              (h ! i) r c)"
    unfolding parallel_pixel_2d_def run_accesses_serial
    by (rule arg_cong [where f = sum_list], rule map_cong [OF refl])
       (simp add: contribution_2d_def)
  also have "\<dots> = (\<Sum>i<length target. contribution_2d wfunc k_rad xmin ymin pixwidthx pixwidthy
              pixcountx pixcounty (target ! i) (x_data ! i) (y_data ! i) (mass ! i) (rho ! i)
              (h ! i) r c)"
    using order by (simp add: sum_list_distinct_conv_sum_set)
  finally show ?thesis
    by (simp only: fast_2d_pixel [OF len r c])
qed

text \<open>
  Two iterations that touch the same pixel and both load it before either stores: the
  second store overwrites the first, and the pixel holds what the later iteration adds.
\<close>

lemma run_accesses_lost_update:
  assumes "a \<noteq> b" and "touches a" and "touches b"
  shows "run_accesses touches added [Load a, Load b, Store a, Store b] = added b"
  using assms by (simp add: run_accesses_def)

lemma two_particles_blocks:
  "pix_lo (1 / 2) 1 2 0 1 1 = 0" "pix_hi (1 / 2) 1 2 0 1 1 = 1"
  "pix_lo (1 / 2) 1 2 0 1 2 = 0" "pix_hi (1 / 2) 1 2 0 1 2 = 2"
  "pix_lo (3 / 2) 1 2 0 1 2 = 0" "pix_hi (3 / 2) 1 2 0 1 2 = 2"
  by (simp_all add: pix_lo_def pix_hi_def np_rint_def clip_def py_int_def Let_def)

lemma two_particles_contributions:
  "contribution_2d CubicSplineKernel_w 2 0 0 1 1 2 1 1 (1 / 2) (1 / 2) 1 1 1 0 0
   = 10 / (7 * pi)"
  "contribution_2d CubicSplineKernel_w 2 0 0 1 1 2 1 2 (3 / 2) (1 / 2) 1 2 1 0 0
   = 5 / (14 * pi)"
  by (simp_all add: contribution_2d_def in_pix_def two_particles_blocks
      CubicSplineKernel_w_def Let_def)

text \<open>
  C5. The claim has every pixel hold the sum of the contributions of all particles,
  whatever the order in which the particles are processed. \<open>_fast_2d\<close> accumulates with
  \<open>image[jmin:jmax, imin:imax] += wab * term[i]\<close> inside \<open>for i in prange(len(term))\<close>, under
  \<open>@njit(parallel=True)\<close>: the iterations run on several threads, and nothing orders the
  read and the write of one iteration against those of another. Take the two particles
  at \<open>(1/2, 1/2)\<close> and \<open>(3/2, 1/2)\<close> with \<open>h = 1\<close>, \<open>m = 1\<close> and \<open>target = rho\<close>, on the grid
  of 2 by 1 unit pixels from the origin, with the cubic spline. Both blocks hold pixel
  \<open>(0, 0)\<close>, to which the particles add \<open>10/(7\<pi>)\<close> and \<open>5/(14\<pi>)\<close>. In the schedule where both
  iterations load the pixel before either stores, the pixel ends at \<open>5/(14\<pi>)\<close>: the
  contribution of particle 0 is lost. Run one after another, in either order, the
  iterations leave the sum \<open>25/(14\<pi>)\<close>, which is the pixel of \<open>fast_2d\<close>.
\<close>

theorem C5_lost_update:
  "schedule_ok 2 [Load 0, Load 1, Store 0, Store 1]
   \<and> parallel_pixel_2d [1, 2] [1 / 2, 3 / 2] [1 / 2, 1 / 2] CubicSplineKernel_w 2
        [1, 1] [1, 2] [1, 1] 0 0 1 1 2 1
        [Load 0, Load 1, Store 0, Store 1] 0 0
      = 5 / (14 * pi)
   \<and> parallel_pixel_2d [1, 2] [1 / 2, 3 / 2] [1 / 2, 1 / 2] CubicSplineKernel_w 2
        [1, 1] [1, 2] [1, 1] 0 0 1 1 2 1
        (serial [0, 1]) 0 0
      = 10 / (7 * pi) + 5 / (14 * pi)
   \<and> parallel_pixel_2d [1, 2] [1 / 2, 3 / 2] [1 / 2, 1 / 2] CubicSplineKernel_w 2
        [1, 1] [1, 2] [1, 1] 0 0 1 1 2 1
        (serial [1, 0]) 0 0
      = 10 / (7 * pi) + 5 / (14 * pi)
   \<and> fast_2d [1, 2] [1 / 2, 3 / 2] [1 / 2, 1 / 2] CubicSplineKernel_w 2
        [1, 1] [1, 2] [1, 1] 0 0 1 1 2 1 ! 0 ! 0
      = 10 / (7 * pi) + 5 / (14 * pi)
   \<and> parallel_pixel_2d [1, 2] [1 / 2, 3 / 2] [1 / 2, 1 / 2] CubicSplineKernel_w 2
        [1, 1] [1, 2] [1, 1] 0 0 1 1 2 1
        [Load 0, Load 1, Store 0, Store 1] 0 0
      \<noteq> fast_2d [1, 2] [1 / 2, 3 / 2] [1 / 2, 1 / 2] CubicSplineKernel_w 2
        [1, 1] [1, 2] [1, 1] 0 0 1 1 2 1 ! 0 ! 0"
proof -
  note c = two_particles_contributions
  have ok: "schedule_ok 2 [Load 0, Load 1, Store 0, Store 1]"
    by (simp add: schedule_ok_def eval_nat_numeral)
  have seq: "fast_2d [1, 2] [1 / 2, 3 / 2] [1 / 2, 1 / 2] CubicSplineKernel_w 2
        [1, 1] [1, 2] [1, 1] 0 0 1 1 2 1 ! 0 ! 0
      = 10 / (7 * pi) + 5 / (14 * pi)"
    by (subst fast_2d_pixel) (simp_all add: eval_nat_numeral lessThan_Suc c)
  have par: "parallel_pixel_2d [1, 2] [1 / 2, 3 / 2] [1 / 2, 1 / 2] CubicSplineKernel_w 2
        [1, 1] [1, 2] [1, 1] 0 0 1 1 2 1
        [Load 0, Load 1, Store 0, Store 1] 0 0
      = 5 / (14 * pi)"
    by (simp add: parallel_pixel_2d_def run_accesses_def c in_pix_def two_particles_blocks)
  have s01: "parallel_pixel_2d [1, 2] [1 / 2, 3 / 2] [1 / 2, 1 / 2] CubicSplineKernel_w 2
        [1, 1] [1, 2] [1, 1] 0 0 1 1 2 1
        (serial [0, 1]) 0 0
      = 10 / (7 * pi) + 5 / (14 * pi)"
    by (simp add: parallel_pixel_2d_def run_accesses_serial c in_pix_def two_particles_blocks)
  have s10: "parallel_pixel_2d [1, 2] [1 / 2, 3 / 2] [1 / 2, 1 / 2] CubicSplineKernel_w 2
        [1, 1] [1, 2] [1, 1] 0 0 1 1 2 1
        (serial [1, 0]) 0 0
      = 10 / (7 * pi) + 5 / (14 * pi)"
    by (simp add: parallel_pixel_2d_def run_accesses_serial c in_pix_def two_particles_blocks)
  have "(5::real) / (14 * pi) \<noteq> 10 / (7 * pi) + 5 / (14 * pi)"
    by simp
  then show ?thesis
    unfolding par seq s01 s10 using ok by simp
qed


section \<open>The planar cross-section: filtering and coefficient\<close>

lemma fast_3d_cross_filtered:
  assumes "k_rad * hh \<le> \<bar>zslice - za\<bar>"
  shows "fast_3d_cross [t] [xa] [ya] [za] wfunc zslice k_rad [m] [rh] [hh] pixwidthx pixwidthy
           xmin ymin pixcountx pixcounty = np_zeros2 pixcounty pixcountx"
proof (rule image_eqI [where R = "nat pixcounty" and C = "nat pixcountx"])
  fix r c assume "r < nat pixcounty" and "c < nat pixcountx"
  then show "fast_3d_cross [t] [xa] [ya] [za] wfunc zslice k_rad [m] [rh] [hh] pixwidthx
           pixwidthy xmin ymin pixcountx pixcounty ! r ! c = np_zeros2 pixcounty pixcountx ! r ! c"
    using assms
    by (simp add: fast_3d_cross_single contribution_3d_cross_def np_zeros2_shape)
qed (simp_all add: fast_3d_cross_shape np_zeros2_shape)

lemma fast_3d_cross_kept_sum:
  assumes len: "length x_data = length target" "length y_data = length target"
      "length z_data = length target"
      "length mass = length target" "length rho = length target" "length h = length target"
    and r: "r < nat pixcounty" and c: "c < nat pixcountx"
  shows "fast_3d_cross target x_data y_data z_data wfunc zslice k_rad mass rho h
           pixwidthx pixwidthy xmin ymin pixcountx pixcounty ! r ! c =
         (\<Sum>i\<in>{i. i < length target \<and> \<bar>zslice - z_data ! i\<bar> < k_rad * h ! i}.
            fast_3d_cross [target ! i] [x_data ! i] [y_data ! i] [z_data ! i] wfunc zslice k_rad
              [mass ! i] [rho ! i] [h ! i] pixwidthx pixwidthy xmin ymin
              pixcountx pixcounty ! r ! c)"
proof -
  let ?S = "\<lambda>i. fast_3d_cross [target ! i] [x_data ! i] [y_data ! i] [z_data ! i] wfunc zslice
              k_rad [mass ! i] [rho ! i] [h ! i] pixwidthx pixwidthy xmin ymin
              pixcountx pixcounty ! r ! c"
  have zero: "?S i = 0" if "\<not> \<bar>zslice - z_data ! i\<bar> < k_rad * h ! i" for i
    using that r c by (simp add: fast_3d_cross_filtered np_zeros2_shape)
  have "{i. i < length target \<and> \<bar>zslice - z_data ! i\<bar> < k_rad * h ! i}
          \<subseteq> {..<length target}"
    by auto
  then have "sum ?S {i. i < length target \<and> \<bar>zslice - z_data ! i\<bar> < k_rad * h ! i}
               = sum ?S {..<length target}"
    by (rule sum.mono_neutral_left [OF finite_lessThan]) (auto simp: zero)
  then show ?thesis
    by (simp only: fast_3d_cross_additive [OF len r c])
qed

lemma fast_3d_cross_near_plane:
  assumes "0 < \<epsilon>" and "\<epsilon> \<le> 1"
  shows "fast_3d_cross [1] [1 / 2] [1 / 2] [0] CubicSplineKernel_w (2 - \<epsilon>) 2 [1] [1] [1]
           1 1 0 0 1 1 ! 0 ! 0 = \<epsilon> ^ 3 / (4 * pi)"
proof -
  have lo: "pix_lo (1 / 2) 1 2 0 1 1 = 0" and hi: "pix_hi (1 / 2) 1 2 0 1 1 = 1"
    by (simp_all add: pix_lo_def pix_hi_def np_rint_def clip_def py_int_def Let_def)
  have q: "sqrt ((2 - \<epsilon>)\<^sup>2) = 2 - \<epsilon>"
    using assms by simp
  have "CubicSplineKernel_w (2 - \<epsilon>) 3 = \<epsilon> ^ 3 / (4 * pi)"
    using assms by (simp add: CubicSplineKernel_w_def Let_def power3_eq_cube)
  then show ?thesis
    using assms
    by (simp add: fast_3d_cross_single contribution_3d_cross_def in_pix_def lo hi q)
qed

text \<open>
  C6. In \<open>_fast_3d_cross\<close> a particle with \<open>|zslice - za| \<ge> k_rad \<sqdot> hh\<close> is filtered out
  before the loop: alone it leaves the image all zero, whatever the weight function, and
  a pixel of the image of \<open>N\<close> particles is the sum of the one-particle images over the
  particles with \<open>|zslice - z| < k_rad \<sqdot> h\<close> only. Moved to \<open>|zslice - za| = 2 \<sqdot> 1 - \<epsilon>\<close>, with
  \<open>0 < \<epsilon> \<le> 1\<close>, a cubic-spline particle at the centre of the single pixel of a grid makes
  that pixel non-zero.
\<close>

theorem C6_plane_filter:
  "(k_rad * hh \<le> \<bar>zslice - za\<bar> \<longrightarrow>
      fast_3d_cross [t] [xa] [ya] [za] wfunc zslice k_rad [m] [rh] [hh] pixwidthx pixwidthy
        xmin ymin pixcountx pixcounty = np_zeros2 pixcounty pixcountx)
   \<and> (length x_data = length target \<and> length y_data = length target
        \<and> length z_data = length target \<and> length mass = length target
        \<and> length rho = length target \<and> length h = length target
        \<and> r < nat pixcounty \<and> c < nat pixcountx \<longrightarrow>
      fast_3d_cross target x_data y_data z_data wfunc zslice k_rad mass rho h
          pixwidthx pixwidthy xmin ymin pixcountx pixcounty ! r ! c =
        (\<Sum>i\<in>{i. i < length target \<and> \<bar>zslice - z_data ! i\<bar> < k_rad * h ! i}.
           fast_3d_cross [target ! i] [x_data ! i] [y_data ! i] [z_data ! i] wfunc zslice k_rad
             [mass ! i] [rho ! i] [h ! i] pixwidthx pixwidthy xmin ymin
             pixcountx pixcounty ! r ! c))
   \<and> (0 < \<epsilon> \<and> \<epsilon> \<le> 1 \<longrightarrow>
        \<bar>(2 - \<epsilon>) - 0\<bar> = get_radius CubicSplineKernel * 1 - \<epsilon>
        \<and> fast_3d_cross [1] [1 / 2] [1 / 2] [0] (w CubicSplineKernel) (2 - \<epsilon>)
            (get_radius CubicSplineKernel) [1] [1] [1] 1 1 0 0 1 1 ! 0 ! 0 \<noteq> 0)"
proof (intro conjI impI)
  assume "k_rad * hh \<le> \<bar>zslice - za\<bar>"
  then show "fast_3d_cross [t] [xa] [ya] [za] wfunc zslice k_rad [m] [rh] [hh] pixwidthx
        pixwidthy xmin ymin pixcountx pixcounty = np_zeros2 pixcounty pixcountx"
    by (rule fast_3d_cross_filtered)
next
  assume "length x_data = length target \<and> length y_data = length target
        \<and> length z_data = length target \<and> length mass = length target
        \<and> length rho = length target \<and> length h = length target
        \<and> r < nat pixcounty \<and> c < nat pixcountx"
  then show "fast_3d_cross target x_data y_data z_data wfunc zslice k_rad mass rho h
          pixwidthx pixwidthy xmin ymin pixcountx pixcounty ! r ! c =
        (\<Sum>i\<in>{i. i < length target \<and> \<bar>zslice - z_data ! i\<bar> < k_rad * h ! i}.
           fast_3d_cross [target ! i] [x_data ! i] [y_data ! i] [z_data ! i] wfunc zslice k_rad
             [mass ! i] [rho ! i] [h ! i] pixwidthx pixwidthy xmin ymin
             pixcountx pixcounty ! r ! c)"
    by (intro fast_3d_cross_kept_sum) simp_all
next
  assume e: "0 < \<epsilon> \<and> \<epsilon> \<le> 1"
  then show "\<bar>(2 - \<epsilon>) - 0\<bar> = get_radius CubicSplineKernel * 1 - \<epsilon>"
    by (simp add: CubicSplineKernel_def)
  have "fast_3d_cross [1] [1 / 2] [1 / 2] [0] CubicSplineKernel_w (2 - \<epsilon>) 2 [1] [1] [1]
           1 1 0 0 1 1 ! 0 ! 0 = \<epsilon> ^ 3 / (4 * pi)"
    using e by (intro fast_3d_cross_near_plane) simp_all
  then show "fast_3d_cross [1] [1 / 2] [1 / 2] [0] (w CubicSplineKernel) (2 - \<epsilon>)
            (get_radius CubicSplineKernel) [1] [1] [1] 1 1 0 0 1 1 ! 0 ! 0 \<noteq> 0"
    using e by (simp add: CubicSplineKernel_def)
qed

theorem C6_plane_filter_witness:
  "(2::real) * 1 \<le> \<bar>2 - 0\<bar>
   \<and> fast_3d_cross [1] [1 / 2] [1 / 2] [0] CubicSplineKernel_w 2 2 [1] [1] [1] 1 1 0 0 1 1
       = np_zeros2 1 1
   \<and> (0::nat) < nat 1
   \<and> fast_3d_cross [1, 1] [1 / 2, 1 / 2] [1 / 2, 1 / 2] [0, 5] CubicSplineKernel_w 2 2
         [1, 1] [1, 1] [1, 1] 1 1 0 0 1 1 ! 0 ! 0 =
       (\<Sum>i\<in>{i. i < length [1, 1 :: real] \<and> \<bar>2 - [0, 5 :: real] ! i\<bar> < 2 * [1, 1] ! i}.
          fast_3d_cross [[1, 1] ! i] [[1 / 2, 1 / 2] ! i] [[1 / 2, 1 / 2] ! i] [[0, 5] ! i]
            CubicSplineKernel_w 2 2 [[1, 1] ! i] [[1, 1] ! i] [[1, 1] ! i] 1 1 0 0 1 1 ! 0 ! 0)
   \<and> (0::real) < 1 / 100 \<and> (1 / 100 :: real) \<le> 1
   \<and> \<bar>(2 - 1 / 100) - 0\<bar> = get_radius CubicSplineKernel * 1 - 1 / 100
   \<and> fast_3d_cross [1] [1 / 2] [1 / 2] [0] (w CubicSplineKernel) (2 - 1 / 100)
        (get_radius CubicSplineKernel) [1] [1] [1] 1 1 0 0 1 1 ! 0 ! 0 \<noteq> 0"
  using C6_plane_filter [where k_rad = 2 and hh = 1 and zslice = 2 and za = 0 and t = 1
      and xa = "1 / 2" and ya = "1 / 2" and m = 1 and rh = 1 and wfunc = CubicSplineKernel_w
      and pixwidthx = 1 and pixwidthy = 1 and xmin = 0 and ymin = 0 and pixcountx = 1
      and pixcounty = 1 and target = "[1, 1]" and x_data = "[1 / 2, 1 / 2]"
      and y_data = "[1 / 2, 1 / 2]" and z_data = "[0, 5]" and mass = "[1, 1]"
      and rho = "[1, 1]" and h = "[1, 1]" and r = 0 and c = 0 and \<epsilon> = "1 / 100"]
  by (simp add: CubicSplineKernel_def)

text \<open>
  C7. For a particle set with positive smoothing lengths and densities, the pixel
  \<open>(r, c)\<close> of \<open>_fast_3d_cross\<close> is the sum, over the particles \<open>i\<close> that pass the filter and
  have the pixel in their index range, of \<open>target[i] \<sqdot> mass[i] / (rho[i] \<sqdot> h[i]\<^sup>3)\<close> times
  the weight in 3 dimensions, whereas \<open>_fast_2d\<close> and \<open>_fast_3d\<close> multiply their weight (the
  kernel in 2 dimensions, the interpolated column table) by
  \<open>target[i] \<sqdot> mass[i] / (rho[i] \<sqdot> h[i]\<^sup>2)\<close>; for \<open>_fast_3d\<close> where it returns an image.
\<close>

theorem C7_term:
  assumes "length x_data = length target" and "length y_data = length target"
    and "length z_data = length target" and "length mass = length target"
    and "length rho = length target" and "length h = length target"
    and "r < nat pixcounty" and "c < nat pixcountx"
    and "\<forall>v\<in>set h. 0 < v" and "\<forall>v\<in>set rho. 0 < v"
  shows
   "fast_3d_cross target x_data y_data z_data wfunc zslice k_rad mass rho h
        pixwidthx pixwidthy xmin ymin pixcountx pixcounty ! r ! c =
      (\<Sum>i<length target.
         if \<bar>zslice - z_data ! i\<bar> < k_rad * h ! i
            \<and> in_pix (y_data ! i) (h ! i) k_rad ymin pixwidthy pixcounty r
            \<and> in_pix (x_data ! i) (h ! i) k_rad xmin pixwidthx pixcountx c
         then target ! i * mass ! i / (rho ! i * (h ! i) ^ 3)
              * wfunc (sqrt (((xmin + (of_nat c + 0.5) * pixwidthx - x_data ! i)\<^sup>2
                                * (1 / (h ! i)\<^sup>2)
                              + (zslice - z_data ! i)\<^sup>2 * (1 / (h ! i)\<^sup>2))
                             + (ymin + (of_nat r + 0.5) * pixwidthy - y_data ! i)
                               * (ymin + (of_nat r + 0.5) * pixwidthy - y_data ! i)
                               * (1 / (h ! i)\<^sup>2))) 3
         else 0)
    \<and> fast_2d target x_data y_data wfunc k_rad mass rho h xmin ymin pixwidthx pixwidthy
        pixcountx pixcounty ! r ! c =
      (\<Sum>i<length target.
         if in_pix (y_data ! i) (h ! i) k_rad ymin pixwidthy pixcounty r
            \<and> in_pix (x_data ! i) (h ! i) k_rad xmin pixwidthx pixcountx c
         then wfunc (sqrt ((xmin + (of_nat c + 0.5) * pixwidthx - x_data ! i)\<^sup>2
                             * (1 / (h ! i)\<^sup>2)
                           + (ymin + (of_nat r + 0.5) * pixwidthy - y_data ! i)
                             * (ymin + (of_nat r + 0.5) * pixwidthy - y_data ! i)
                             * (1 / (h ! i)\<^sup>2))) 2
              * (target ! i * mass ! i / (rho ! i * (h ! i) ^ 2))
         else 0)
    \<and> (length wfuncint = nat int_samples \<and> 0 < int_samples \<longrightarrow>
         (\<exists>img. fast_3d target x_data y_data wfuncint int_samples k_rad mass rho h xmin ymin
                  pixwidthx pixwidthy pixcountx pixcounty = Inr img
            \<and> img ! r ! c =
                (\<Sum>i<length target.
                   if in_pix (y_data ! i) (h ! i) k_rad ymin pixwidthy pixcounty r
                      \<and> in_pix (x_data ! i) (h ! i) k_rad xmin pixwidthx pixcountx c
                   then interp_scalar
                          (sqrt ((xmin + (of_nat c + 0.5) * pixwidthx - x_data ! i)\<^sup>2
                                   * (1 / (h ! i)\<^sup>2)
                                 + (ymin + (of_nat r + 0.5) * pixwidthy - y_data ! i)
                                   * (ymin + (of_nat r + 0.5) * pixwidthy - y_data ! i)
                                   * (1 / (h ! i)\<^sup>2)))
                          (np_linspace 0 k_rad int_samples) wfuncint
                        * (target ! i * mass ! i / (rho ! i * (h ! i) ^ 2))
                   else 0)))"
proof (intro conjI impI)
  show "fast_3d_cross target x_data y_data z_data wfunc zslice k_rad mass rho h
        pixwidthx pixwidthy xmin ymin pixcountx pixcounty ! r ! c =
      (\<Sum>i<length target.
         if \<bar>zslice - z_data ! i\<bar> < k_rad * h ! i
            \<and> in_pix (y_data ! i) (h ! i) k_rad ymin pixwidthy pixcounty r
            \<and> in_pix (x_data ! i) (h ! i) k_rad xmin pixwidthx pixcountx c
         then target ! i * mass ! i / (rho ! i * (h ! i) ^ 3)
              * wfunc (sqrt (((xmin + (of_nat c + 0.5) * pixwidthx - x_data ! i)\<^sup>2
                                * (1 / (h ! i)\<^sup>2)
                              + (zslice - z_data ! i)\<^sup>2 * (1 / (h ! i)\<^sup>2))
                             + (ymin + (of_nat r + 0.5) * pixwidthy - y_data ! i)
                               * (ymin + (of_nat r + 0.5) * pixwidthy - y_data ! i)
                               * (1 / (h ! i)\<^sup>2))) 3
         else 0)"
    unfolding fast_3d_cross_pixel [OF assms(1-8)] contribution_3d_cross_def ..
  show "fast_2d target x_data y_data wfunc k_rad mass rho h xmin ymin pixwidthx pixwidthy
        pixcountx pixcounty ! r ! c =
      (\<Sum>i<length target.
         if in_pix (y_data ! i) (h ! i) k_rad ymin pixwidthy pixcounty r
            \<and> in_pix (x_data ! i) (h ! i) k_rad xmin pixwidthx pixcountx c
         then wfunc (sqrt ((xmin + (of_nat c + 0.5) * pixwidthx - x_data ! i)\<^sup>2
                             * (1 / (h ! i)\<^sup>2)
                           + (ymin + (of_nat r + 0.5) * pixwidthy - y_data ! i)
                             * (ymin + (of_nat r + 0.5) * pixwidthy - y_data ! i)
                             * (1 / (h ! i)\<^sup>2))) 2
              * (target ! i * mass ! i / (rho ! i * (h ! i) ^ 2))
         else 0)"
    unfolding fast_2d_pixel [OF assms(1,2,4,5,6,7,8)] contribution_2d_def ..
  assume "length wfuncint = nat int_samples \<and> 0 < int_samples"
  then have tbl: "length wfuncint = nat int_samples" "0 < int_samples"
    by simp_all
  show "\<exists>img. fast_3d target x_data y_data wfuncint int_samples k_rad mass rho h xmin ymin
                  pixwidthx pixwidthy pixcountx pixcounty = Inr img
            \<and> img ! r ! c =
                (\<Sum>i<length target.
                   if in_pix (y_data ! i) (h ! i) k_rad ymin pixwidthy pixcounty r
                      \<and> in_pix (x_data ! i) (h ! i) k_rad xmin pixwidthx pixcountx c
                   then interp_scalar
                          (sqrt ((xmin + (of_nat c + 0.5) * pixwidthx - x_data ! i)\<^sup>2
                                   * (1 / (h ! i)\<^sup>2)
                                 + (ymin + (of_nat r + 0.5) * pixwidthy - y_data ! i)
                                   * (ymin + (of_nat r + 0.5) * pixwidthy - y_data ! i)
                                   * (1 / (h ! i)\<^sup>2)))
                          (np_linspace 0 k_rad int_samples) wfuncint
                        * (target ! i * mass ! i / (rho ! i * (h ! i) ^ 2))
                   else 0)"
    by (simp only: fast_3d_ok [OF tbl] sum.inject simp_thms ex_simps
        fast_2d_pixel [OF assms(1,2,4,5,6,7,8)] contribution_2d_def)
qed

theorem C7_term_witness:
  "length [1 / 2 :: real] = length [3 :: real] \<and> (0::nat) < nat 1
   \<and> (0::real) < 2
   \<and> fast_3d_cross [3] [1 / 2] [1 / 2] [0] CubicSplineKernel_w 2 2 [1] [2] [2]
        1 1 0 0 1 1 ! 0 ! 0 = 3 * 1 / (2 * 2 ^ 3) * (1 / (4 * pi))
   \<and> fast_2d [3] [1 / 2] [1 / 2] CubicSplineKernel_w 2 [1] [2] [2] 0 0 1 1 1 1 ! 0 ! 0
       = 10 / (7 * pi) * (3 * 1 / (2 * 2 ^ 2))
   \<and> length [1, 0 :: real] = nat 2
   \<and> (\<exists>img. fast_3d [3] [1 / 2] [1 / 2] [1, 0] 2 2 [1] [2] [2] 0 0 1 1 1 1 = Inr img
          \<and> img ! 0 ! 0 = 1 * (3 * 1 / (2 * 2 ^ 2)))"
proof -
  have lo: "pix_lo (1 / 2) 2 2 0 1 1 = 0" and hi: "pix_hi (1 / 2) 2 2 0 1 1 = 1"
    by (simp_all add: pix_lo_def pix_hi_def np_rint_def clip_def py_int_def Let_def)
  have w3: "CubicSplineKernel_w 1 3 = 1 / (4 * pi)" and w2: "CubicSplineKernel_w 0 2 = 10 / (7 * pi)"
    by (simp_all add: CubicSplineKernel_w_def Let_def)
  have ip: "interp_scalar 0 (np_linspace 0 2 2) [1, 0] = 1"
    by (simp add: interp_scalar_def np_linspace_def upt_rec)
  from C7_term [where target = "[3]" and x_data = "[1 / 2]" and y_data = "[1 / 2]"
      and z_data = "[0]" and mass = "[1]" and rho = "[2]" and h = "[2]" and r = 0 and c = 0
      and pixcountx = 1 and pixcounty = 1 and wfunc = CubicSplineKernel_w and zslice = 2
      and k_rad = 2 and pixwidthx = 1 and pixwidthy = 1 and xmin = 0 and ymin = 0
      and wfuncint = "[1, 0]" and int_samples = 2]
  show ?thesis
    by (simp add: in_pix_def lo hi w3 w2 ip)
qed


section \<open>The line cross-section\<close>

lemma quad_is_circle:
  "quad_aa x1 y1 x2 y2 * X\<^sup>2 + quad_bb x1 y1 x2 y2 xa ya * X + quad_cc x1 y1 x2 y2 k_rad xa ya hh
   = (X - xa)\<^sup>2 + (gradient x1 y1 x2 y2 * X + yint x1 y1 x2 y2 - ya)\<^sup>2 - (k_rad * hh)\<^sup>2"
  by (simp add: quad_aa_def quad_bb_def quad_cc_def power2_eq_square algebra_simps)

lemma quad_aa_pos: "0 < quad_aa x1 y1 x2 y2"
  by (simp add: quad_aa_def add_pos_nonneg)

lemma quad_root:
  assumes "0 \<le> b\<^sup>2 - 4 * a * c" and "0 < (a::real)"
    and "X = (- b - sqrt (b\<^sup>2 - 4 * a * c)) / (2 * a) \<or> X = (- b + sqrt (b\<^sup>2 - 4 * a * c)) / (2 * a)"
  shows "a * X\<^sup>2 + b * X + c = 0"
proof -
  let ?d = "sqrt (b\<^sup>2 - 4 * a * c)"
  have d: "?d\<^sup>2 = b\<^sup>2 - 4 * a * c"
    using assms(1) by simp
  have "2 * a * X + b = - ?d \<or> 2 * a * X + b = ?d"
    using assms(2,3) by (auto simp: field_simps)
  then have "(2 * a * X + b)\<^sup>2 = ?d\<^sup>2"
    by auto
  then have "(2 * a * X + b)\<^sup>2 = b\<^sup>2 - 4 * a * c"
    by (simp only: d)
  then have "4 * a * (a * X\<^sup>2 + b * X + c) = 0"
    by (simp add: power2_eq_square algebra_simps)
  then show ?thesis
    using assms(2) by simp
qed

lemma fast_2d_cross_excluded:
  assumes "quad_det x1 y1 x2 y2 k_rad xa ya hh < 0"
  shows "fast_2d_cross [t] [xa] [ya] wfunc k_rad [m] [rh] [hh] x1 y1 x2 y2 pixcount
         = np_zeros pixcount"
proof (rule nth_equalityI)
  fix p assume "p < length (fast_2d_cross [t] [xa] [ya] wfunc k_rad [m] [rh] [hh] x1 y1 x2 y2
                   pixcount)"
  then have p: "p < nat pixcount"
    by (simp add: fast_2d_cross_length)
  then show "fast_2d_cross [t] [xa] [ya] wfunc k_rad [m] [rh] [hh] x1 y1 x2 y2 pixcount ! p
             = np_zeros pixcount ! p"
    using assms by (simp add: fast_2d_cross_single contribution_2d_cross_def np_zeros_def)
qed (simp add: fast_2d_cross_length np_zeros_def)

lemma fast_2d_cross_kept_sum:
  assumes len: "length x_data = length target" "length y_data = length target"
      "length mass = length target" "length rho = length target" "length h = length target"
    and p: "p < nat pixcount"
  shows "fast_2d_cross target x_data y_data wfunc k_rad mass rho h x1 y1 x2 y2 pixcount ! p =
         (\<Sum>i\<in>{i. i < length target
                  \<and> 0 \<le> quad_det x1 y1 x2 y2 k_rad (x_data ! i) (y_data ! i) (h ! i)}.
            fast_2d_cross [target ! i] [x_data ! i] [y_data ! i] wfunc k_rad
              [mass ! i] [rho ! i] [h ! i] x1 y1 x2 y2 pixcount ! p)"
proof -
  let ?S = "\<lambda>i. fast_2d_cross [target ! i] [x_data ! i] [y_data ! i] wfunc k_rad
              [mass ! i] [rho ! i] [h ! i] x1 y1 x2 y2 pixcount ! p"
  have zero: "?S i = 0"
    if "\<not> 0 \<le> quad_det x1 y1 x2 y2 k_rad (x_data ! i) (y_data ! i) (h ! i)" for i
    using that p by (simp add: fast_2d_cross_excluded np_zeros_def)
  have "{i. i < length target
            \<and> 0 \<le> quad_det x1 y1 x2 y2 k_rad (x_data ! i) (y_data ! i) (h ! i)}
          \<subseteq> {..<length target}"
    by auto
  then have "sum ?S {i. i < length target
                  \<and> 0 \<le> quad_det x1 y1 x2 y2 k_rad (x_data ! i) (y_data ! i) (h ! i)}
               = sum ?S {..<length target}"
    by (rule sum.mono_neutral_left [OF finite_lessThan]) (auto simp: zero)
  then show ?thesis
    by (simp only: fast_2d_cross_additive [OF len p])
qed

lemma interpolate_2d_cross_runs:
  assumes "\<not> (np_isclose y2 y1 \<and> np_isclose x2 x1)" and "0 < pixcount"
    and "columns data target \<noteq> None" and "columns data x \<noteq> None"
    and "columns data y \<noteq> None" and "columns data ''m'' \<noteq> None"
    and "columns data ''rho'' \<noteq> None" and "columns data ''h'' \<noteq> None"
  shows "\<exists>target_a x_a y_a m_a rho_a h_a.
           to_numpy data target = Inr target_a \<and> to_numpy data x = Inr x_a
           \<and> to_numpy data y = Inr y_a \<and> to_numpy data ''m'' = Inr m_a
           \<and> to_numpy data ''rho'' = Inr rho_a \<and> to_numpy data ''h'' = Inr h_a
           \<and> interpolate_2d_cross data target x y kern x1 y1 x2 y2 pixcount
               = Inr (fast_2d_cross target_a x_a y_a (weight kern) (get_radius kern)
                        m_a rho_a h_a x1 y1 x2 y2 pixcount)"
  using assms
  by (auto simp: interpolate_2d_cross_def to_numpy_def ebind_def)

lemma fast_2d_cross_vertical:
  assumes len: "length x_data = length target" "length y_data = length target"
      "length mass = length target" "length rho = length target" "length h = length target"
  shows "fast_2d_cross target x_data y_data wfunc k_rad mass rho h x1 y1 x1 y2 pixcount
         = np_zeros pixcount"
proof (rule nth_equalityI)
  fix p assume "p < length (fast_2d_cross target x_data y_data wfunc k_rad mass rho h
                   x1 y1 x1 y2 pixcount)"
  then have p: "p < nat pixcount"
    by (simp add: fast_2d_cross_length)
  have "clip v x1 x1 = x1" for v
    by (simp add: clip_def)
  then have "contribution_2d_cross wfunc k_rad x1 y1 x1 y2 pixcount t xa ya m rh hh p = 0"
    for t xa ya m rh hh
    by (simp add: contribution_2d_cross_def)
  then show "fast_2d_cross target x_data y_data wfunc k_rad mass rho h x1 y1 x1 y2 pixcount ! p
             = np_zeros pixcount ! p"
    using p by (simp add: fast_2d_cross_pixel [OF len p] np_zeros_def)
qed (simp add: fast_2d_cross_length np_zeros_def)

lemma vertical_det:
  "0 \<le> quad_det x1 y1 x1 y2 k_rad xa ya hh \<longleftrightarrow> \<bar>ya - y2\<bar> \<le> \<bar>k_rad * hh\<bar>"
proof -
  have "quad_det x1 y1 x1 y2 k_rad xa ya hh = 4 * ((k_rad * hh)\<^sup>2 - (ya - y2)\<^sup>2)"
    by (simp add: quad_det_def quad_aa_def quad_bb_def quad_cc_def gradient_def yint_def
        power2_eq_square algebra_simps)
  then show ?thesis
    by (simp add: abs_le_square_iff)
qed

text \<open>
  C8. With \<open>aa = 1 + gradient\<^sup>2\<close>, \<open>bb = 2 \<sqdot> gradient \<sqdot> (yint - ya) - 2 \<sqdot> xa\<close> and
  \<open>cc = xa\<^sup>2 + ya\<^sup>2 - 2 \<sqdot> yint \<sqdot> ya + yint\<^sup>2 - (k_rad \<sqdot> hh)\<^sup>2\<close>, the polynomial
  \<open>aa \<sqdot> X\<^sup>2 + bb \<sqdot> X + cc\<close> is the squared distance of the point of the line at abscissa \<open>X\<close>
  from the particle, minus the squared support radius: its zeros are the intersections of
  the line with the support circle, and for a discriminant \<open>bb\<^sup>2 - 4 \<sqdot> aa \<sqdot> cc \<ge> 0\<close> the two
  values \<open>(- bb \<mp> sqrt det) / (2 \<sqdot> aa)\<close> that \<open>_fast_2d_cross\<close> computes are zeros. A particle
  with a negative discriminant alone leaves the output all zero, whatever the weight
  function; one with a non-negative discriminant adds its weight times its term to the
  pixels between the pixel indices of the two clipped roots; a pixel of the output for
  \<open>N\<close> particles is the sum of the one-particle outputs over the particles with a
  non-negative discriminant only; and \<open>interpolate_2d_cross\<close> returns an array, not an
  error, whatever the discriminants are.
\<close>

theorem C8_line_quadratic:
  "quad_aa x1 y1 x2 y2 * X\<^sup>2 + quad_bb x1 y1 x2 y2 xa ya * X + quad_cc x1 y1 x2 y2 k_rad xa ya hh
     = (X - xa)\<^sup>2 + (gradient x1 y1 x2 y2 * X + yint x1 y1 x2 y2 - ya)\<^sup>2 - (k_rad * hh)\<^sup>2
   \<and> quad_aa x1 y1 x2 y2 = 1 + (gradient x1 y1 x2 y2)\<^sup>2
   \<and> quad_bb x1 y1 x2 y2 xa ya = 2 * gradient x1 y1 x2 y2 * (yint x1 y1 x2 y2 - ya) - 2 * xa
   \<and> quad_cc x1 y1 x2 y2 k_rad xa ya hh
       = xa\<^sup>2 + ya\<^sup>2 - 2 * yint x1 y1 x2 y2 * ya + (yint x1 y1 x2 y2)\<^sup>2 - (k_rad * hh)\<^sup>2
   \<and> quad_det x1 y1 x2 y2 k_rad xa ya hh
       = (quad_bb x1 y1 x2 y2 xa ya)\<^sup>2
         - 4 * quad_aa x1 y1 x2 y2 * quad_cc x1 y1 x2 y2 k_rad xa ya hh
   \<and> (0 \<le> quad_det x1 y1 x2 y2 k_rad xa ya hh
        \<and> (X = (- quad_bb x1 y1 x2 y2 xa ya - sqrt (quad_det x1 y1 x2 y2 k_rad xa ya hh))
                 / (2 * quad_aa x1 y1 x2 y2)
           \<or> X = (- quad_bb x1 y1 x2 y2 xa ya + sqrt (quad_det x1 y1 x2 y2 k_rad xa ya hh))
                 / (2 * quad_aa x1 y1 x2 y2))
      \<longrightarrow> quad_aa x1 y1 x2 y2 * X\<^sup>2 + quad_bb x1 y1 x2 y2 xa ya * X
            + quad_cc x1 y1 x2 y2 k_rad xa ya hh = 0)
   \<and> (quad_det x1 y1 x2 y2 k_rad xa ya hh < 0 \<longrightarrow>
        fast_2d_cross [t] [xa] [ya] wfunc k_rad [m] [rh] [hh] x1 y1 x2 y2 pixcount
          = np_zeros pixcount)
   \<and> (0 \<le> quad_det x1 y1 x2 y2 k_rad xa ya hh \<and> p < nat pixcount \<longrightarrow>
        fast_2d_cross [t] [xa] [ya] wfunc k_rad [m] [rh] [hh] x1 y1 x2 y2 pixcount ! p
          = (if line_pix x1 y1 x2 y2 pixcount
                  (clip ((- quad_bb x1 y1 x2 y2 xa ya
                          - sqrt (quad_det x1 y1 x2 y2 k_rad xa ya hh))
                         / (2 * quad_aa x1 y1 x2 y2)) x1 x2) \<le> int p
                \<and> int p < line_pix x1 y1 x2 y2 pixcount
                  (clip ((- quad_bb x1 y1 x2 y2 xa ya
                          + sqrt (quad_det x1 y1 x2 y2 k_rad xa ya hh))
                         / (2 * quad_aa x1 y1 x2 y2)) x1 x2)
             then wfunc (sqrt (((pixel_center x1 ((x2 - x1) / of_int pixcount) p - xa)
                                  * (pixel_center x1 ((x2 - x1) / of_int pixcount) p - xa)
                                + (gradient x1 y1 x2 y2
                                     * pixel_center x1 ((x2 - x1) / of_int pixcount) p
                                   + yint x1 y1 x2 y2 - ya)
                                  * (gradient x1 y1 x2 y2
                                       * pixel_center x1 ((x2 - x1) / of_int pixcount) p
                                     + yint x1 y1 x2 y2 - ya))
                               * (1 / (hh * hh)))) 2
                  * (t * m / (rh * hh ^ 2))
             else 0))
   \<and> (length x_data = length target \<and> length y_data = length target
        \<and> length mass = length target \<and> length rho = length target
        \<and> length h = length target \<and> p < nat pixcount \<longrightarrow>
        fast_2d_cross target x_data y_data wfunc k_rad mass rho h x1 y1 x2 y2 pixcount ! p =
          (\<Sum>i\<in>{i. i < length target
                   \<and> 0 \<le> quad_det x1 y1 x2 y2 k_rad (x_data ! i) (y_data ! i) (h ! i)}.
             fast_2d_cross [target ! i] [x_data ! i] [y_data ! i] wfunc k_rad
               [mass ! i] [rho ! i] [h ! i] x1 y1 x2 y2 pixcount ! p))
   \<and> (\<not> (np_isclose y2 y1 \<and> np_isclose x2 x1) \<and> 0 < pixcount
        \<and> columns data target_l \<noteq> None \<and> columns data x_l \<noteq> None
        \<and> columns data y_l \<noteq> None \<and> columns data ''m'' \<noteq> None
        \<and> columns data ''rho'' \<noteq> None \<and> columns data ''h'' \<noteq> None \<longrightarrow>
        (\<exists>out. interpolate_2d_cross data target_l x_l y_l kern x1 y1 x2 y2 pixcount = Inr out
               \<and> length out = nat pixcount))"
proof -
  have c1: "quad_aa x1 y1 x2 y2 = 1 + (gradient x1 y1 x2 y2)\<^sup>2"
    by (simp add: quad_aa_def)
  have c2: "quad_bb x1 y1 x2 y2 xa ya
              = 2 * gradient x1 y1 x2 y2 * (yint x1 y1 x2 y2 - ya) - 2 * xa"
    by (simp add: quad_bb_def)
  have c3: "quad_cc x1 y1 x2 y2 k_rad xa ya hh
       = xa\<^sup>2 + ya\<^sup>2 - 2 * yint x1 y1 x2 y2 * ya + (yint x1 y1 x2 y2)\<^sup>2 - (k_rad * hh)\<^sup>2"
    by (simp add: quad_cc_def)
  have c4: "quad_det x1 y1 x2 y2 k_rad xa ya hh
       = (quad_bb x1 y1 x2 y2 xa ya)\<^sup>2
         - 4 * quad_aa x1 y1 x2 y2 * quad_cc x1 y1 x2 y2 k_rad xa ya hh"
    by (simp add: quad_det_def)
  have roots: "0 \<le> quad_det x1 y1 x2 y2 k_rad xa ya hh
        \<and> (X = (- quad_bb x1 y1 x2 y2 xa ya - sqrt (quad_det x1 y1 x2 y2 k_rad xa ya hh))
                 / (2 * quad_aa x1 y1 x2 y2)
           \<or> X = (- quad_bb x1 y1 x2 y2 xa ya + sqrt (quad_det x1 y1 x2 y2 k_rad xa ya hh))
                 / (2 * quad_aa x1 y1 x2 y2))
      \<longrightarrow> quad_aa x1 y1 x2 y2 * X\<^sup>2 + quad_bb x1 y1 x2 y2 xa ya * X
            + quad_cc x1 y1 x2 y2 k_rad xa ya hh = 0"
  proof
    assume a: "0 \<le> quad_det x1 y1 x2 y2 k_rad xa ya hh
        \<and> (X = (- quad_bb x1 y1 x2 y2 xa ya - sqrt (quad_det x1 y1 x2 y2 k_rad xa ya hh))
                 / (2 * quad_aa x1 y1 x2 y2)
           \<or> X = (- quad_bb x1 y1 x2 y2 xa ya + sqrt (quad_det x1 y1 x2 y2 k_rad xa ya hh))
                 / (2 * quad_aa x1 y1 x2 y2))"
    show "quad_aa x1 y1 x2 y2 * X\<^sup>2 + quad_bb x1 y1 x2 y2 xa ya * X
            + quad_cc x1 y1 x2 y2 k_rad xa ya hh = 0"
      using a quad_aa_pos [of x1 y1 x2 y2]
      unfolding quad_det_def by (intro quad_root) simp_all
  qed
  have excl: "quad_det x1 y1 x2 y2 k_rad xa ya hh < 0 \<longrightarrow>
        fast_2d_cross [t] [xa] [ya] wfunc k_rad [m] [rh] [hh] x1 y1 x2 y2 pixcount
          = np_zeros pixcount"
    by (simp add: fast_2d_cross_excluded)
  have single: "0 \<le> quad_det x1 y1 x2 y2 k_rad xa ya hh \<and> p < nat pixcount \<longrightarrow>
        fast_2d_cross [t] [xa] [ya] wfunc k_rad [m] [rh] [hh] x1 y1 x2 y2 pixcount ! p
          = (if line_pix x1 y1 x2 y2 pixcount
                  (clip ((- quad_bb x1 y1 x2 y2 xa ya
                          - sqrt (quad_det x1 y1 x2 y2 k_rad xa ya hh))
                         / (2 * quad_aa x1 y1 x2 y2)) x1 x2) \<le> int p
                \<and> int p < line_pix x1 y1 x2 y2 pixcount
                  (clip ((- quad_bb x1 y1 x2 y2 xa ya
                          + sqrt (quad_det x1 y1 x2 y2 k_rad xa ya hh))
                         / (2 * quad_aa x1 y1 x2 y2)) x1 x2)
             then wfunc (sqrt (((pixel_center x1 ((x2 - x1) / of_int pixcount) p - xa)
                                  * (pixel_center x1 ((x2 - x1) / of_int pixcount) p - xa)
                                + (gradient x1 y1 x2 y2
                                     * pixel_center x1 ((x2 - x1) / of_int pixcount) p
                                   + yint x1 y1 x2 y2 - ya)
                                  * (gradient x1 y1 x2 y2
                                       * pixel_center x1 ((x2 - x1) / of_int pixcount) p
                                     + yint x1 y1 x2 y2 - ya))
                               * (1 / (hh * hh)))) 2
                  * (t * m / (rh * hh ^ 2))
             else 0)"
    by (simp add: fast_2d_cross_single) (simp add: contribution_2d_cross_def pixel_center_def)
  have kept: "length x_data = length target \<and> length y_data = length target
        \<and> length mass = length target \<and> length rho = length target
        \<and> length h = length target \<and> p < nat pixcount \<longrightarrow>
        fast_2d_cross target x_data y_data wfunc k_rad mass rho h x1 y1 x2 y2 pixcount ! p =
          (\<Sum>i\<in>{i. i < length target
                   \<and> 0 \<le> quad_det x1 y1 x2 y2 k_rad (x_data ! i) (y_data ! i) (h ! i)}.
             fast_2d_cross [target ! i] [x_data ! i] [y_data ! i] wfunc k_rad
               [mass ! i] [rho ! i] [h ! i] x1 y1 x2 y2 pixcount ! p)"
    by (intro impI fast_2d_cross_kept_sum) simp_all
  have runs: "\<not> (np_isclose y2 y1 \<and> np_isclose x2 x1) \<and> 0 < pixcount
        \<and> columns data target_l \<noteq> None \<and> columns data x_l \<noteq> None
        \<and> columns data y_l \<noteq> None \<and> columns data ''m'' \<noteq> None
        \<and> columns data ''rho'' \<noteq> None \<and> columns data ''h'' \<noteq> None \<longrightarrow>
        (\<exists>out. interpolate_2d_cross data target_l x_l y_l kern x1 y1 x2 y2 pixcount = Inr out
               \<and> length out = nat pixcount)"
  proof
    assume a: "\<not> (np_isclose y2 y1 \<and> np_isclose x2 x1) \<and> 0 < pixcount
        \<and> columns data target_l \<noteq> None \<and> columns data x_l \<noteq> None
        \<and> columns data y_l \<noteq> None \<and> columns data ''m'' \<noteq> None
        \<and> columns data ''rho'' \<noteq> None \<and> columns data ''h'' \<noteq> None"
    from a interpolate_2d_cross_runs [of y2 y1 x2 x1 pixcount data target_l x_l y_l kern]
    obtain out where "interpolate_2d_cross data target_l x_l y_l kern x1 y1 x2 y2 pixcount
        = Inr out" "length out = nat pixcount"
      by (auto simp: fast_2d_cross_length)
    then show "\<exists>out. interpolate_2d_cross data target_l x_l y_l kern x1 y1 x2 y2 pixcount
        = Inr out \<and> length out = nat pixcount"
      by blast
  qed
  show ?thesis
    apply (intro conjI)
            apply (rule quad_is_circle)
           apply (rule c1)
          apply (rule c2)
         apply (rule c3)
        apply (rule c4)
       apply (rule roots)
      apply (rule excl)
     apply (rule single)
    apply (rule kept)
    apply (rule runs)
    done
qed

theorem C8_line_quadratic_witness:
  "quad_det 0 0 4 0 2 2 5 1 < 0
   \<and> fast_2d_cross [1] [2] [5] CubicSplineKernel_w 2 [1] [1] [1] 0 0 4 0 4 = np_zeros 4
   \<and> 0 \<le> quad_det 0 0 4 0 2 2 0 1
   \<and> (4::real) = (- quad_bb 0 0 4 0 2 0 + sqrt (quad_det 0 0 4 0 2 2 0 1))
                    / (2 * quad_aa 0 0 4 0)
   \<and> quad_aa 0 0 4 0 * 4\<^sup>2 + quad_bb 0 0 4 0 2 0 * 4 + quad_cc 0 0 4 0 2 2 0 1 = 0
   \<and> (1::nat) < nat 4
   \<and> fast_2d_cross [1] [2] [0] CubicSplineKernel_w 2 [1] [1] [1] 0 0 4 0 4 ! 1
       = CubicSplineKernel_w (1 / 2) 2 * (1 * 1 / (1 * 1\<^sup>2))
   \<and> fast_2d_cross [1, 1] [2, 2] [5, 0] CubicSplineKernel_w 2 [1, 1] [1, 1] [1, 1]
        0 0 4 0 4 ! 1 =
       (\<Sum>i\<in>{i. i < length [1, 1 :: real]
                \<and> 0 \<le> quad_det 0 0 4 0 2 ([2, 2] ! i) ([5, 0] ! i) ([1, 1] ! i)}.
          fast_2d_cross [[1, 1] ! i] [[2, 2] ! i] [[5, 0] ! i] CubicSplineKernel_w 2
            [[1, 1] ! i] [[1, 1] ! i] [[1, 1] ! i] 0 0 4 0 4 ! 1)
   \<and> \<not> (np_isclose 0 0 \<and> np_isclose 4 0)
   \<and> (\<exists>out. interpolate_2d_cross two_particles ''rho'' ''x'' ''y'' cubic_spline 0 0 4 0 4
               = Inr out \<and> length out = nat 4)"
proof -
  have g: "gradient 0 0 4 0 = 0" "yint 0 0 4 0 = 0"
    by (simp_all add: gradient_def yint_def)
  have far: "quad_det 0 0 4 0 2 2 5 1 = - 84"
    and near: "quad_det 0 0 4 0 2 2 0 1 = 16"
    and co: "quad_aa 0 0 4 0 = 1" "quad_bb 0 0 4 0 2 0 = - 4" "quad_cc 0 0 4 0 2 2 0 1 = 0"
    by (simp_all add: quad_det_def quad_aa_def quad_bb_def quad_cc_def g)
  have s16: "sqrt 16 = 4"
    using real_sqrt_abs [of 4] by simp
  have s14: "sqrt (1 / 4) = 1 / 2"
    using real_sqrt_abs [of "1 / 2"] by (simp add: power2_eq_square)
  have lp: "line_pix 0 0 4 0 4 0 = 0" "line_pix 0 0 4 0 4 4 = 4"
    by (simp_all add: line_pix_def g s16 np_rint_def clip_def py_int_def Let_def)
  have cols: "columns two_particles ''rho'' \<noteq> None" "columns two_particles ''x'' \<noteq> None"
    "columns two_particles ''y'' \<noteq> None" "columns two_particles ''m'' \<noteq> None"
    "columns two_particles ''h'' \<noteq> None"
    by (simp_all add: two_particles_def)
  have cl: "clip 0 0 4 = 0" "clip 4 0 4 = 4"
    by (simp_all add: clip_def)
  from C8_line_quadratic [where ?x1.0 = 0 and ?y1.0 = 0 and ?x2.0 = 4 and ?y2.0 = 0
      and k_rad = 2 and xa = 2 and ya = 5 and hh = 1 and t = 1 and m = 1 and rh = 1
      and wfunc = CubicSplineKernel_w and pixcount = 4 and p = 1 and X = 0
      and target = "[1, 1]" and x_data = "[2, 2]" and y_data = "[5, 0]" and mass = "[1, 1]"
      and rho = "[1, 1]" and h = "[1, 1]" and data = two_particles and target_l = "''rho''"
      and x_l = "''x''" and y_l = "''y''" and kern = cubic_spline]
    C8_line_quadratic [where ?x1.0 = 0 and ?y1.0 = 0 and ?x2.0 = 4 and ?y2.0 = 0
      and k_rad = 2 and xa = 2 and ya = 0 and hh = 1 and t = 1 and m = 1 and rh = 1
      and wfunc = CubicSplineKernel_w and pixcount = 4 and p = 1 and X = 4
      and target = "[1, 1]" and x_data = "[2, 2]" and y_data = "[5, 0]" and mass = "[1, 1]"
      and rho = "[1, 1]" and h = "[1, 1]" and data = two_particles and target_l = "''rho''"
      and x_l = "''x''" and y_l = "''y''" and kern = cubic_spline]
  show ?thesis
    by (simp add: far near co s16 s14 lp cl cols g pixel_center_def np_isclose_def)
qed

text \<open>
  C9. For a vertical segment, \<open>x2 = x1\<close> and \<open>y2 \<noteq> y1\<close>, \<open>_fast_2d_cross\<close> sets the slope to 0
  and the intercept to \<open>y2\<close>, so it works with the horizontal line \<open>y = y2\<close>: a particle is
  kept exactly when its support circle reaches that line. No error arises: both clipped
  roots are \<open>x1\<close>, every particle's pixel range is empty and the output is all zero; and
  \<open>interpolate_2d_cross\<close> returns that array whenever its own test lets the segment pass
  (\<open>y2\<close> not within the \<open>np.isclose\<close> tolerance of \<open>y1\<close>) and \<open>pixcount > 0\<close>.
\<close>

theorem C9_vertical_line:
  assumes "x2 = x1" and "y2 \<noteq> y1"
  shows "gradient x1 y1 x2 y2 = 0
   \<and> yint x1 y1 x2 y2 = y2
   \<and> (0 \<le> quad_det x1 y1 x2 y2 k_rad xa ya hh \<longleftrightarrow> \<bar>ya - y2\<bar> \<le> \<bar>k_rad * hh\<bar>)
   \<and> (length x_data = length target \<and> length y_data = length target
        \<and> length mass = length target \<and> length rho = length target
        \<and> length h = length target \<longrightarrow>
        fast_2d_cross target x_data y_data wfunc k_rad mass rho h x1 y1 x2 y2 pixcount
          = np_zeros pixcount)
   \<and> (\<not> np_isclose y2 y1 \<and> 0 < pixcount
        \<and> columns data target_l \<noteq> None \<and> columns data x_l \<noteq> None
        \<and> columns data y_l \<noteq> None \<and> columns data ''m'' \<noteq> None
        \<and> columns data ''rho'' \<noteq> None \<and> columns data ''h'' \<noteq> None \<longrightarrow>
        interpolate_2d_cross data target_l x_l y_l kern x1 y1 x2 y2 pixcount
          = Inr (np_zeros pixcount))"
proof -
  have g: "gradient x1 y1 x2 y2 = 0" and yi: "yint x1 y1 x2 y2 = y2"
    using assms(1) by (simp_all add: gradient_def yint_def)
  have det: "0 \<le> quad_det x1 y1 x2 y2 k_rad xa ya hh \<longleftrightarrow> \<bar>ya - y2\<bar> \<le> \<bar>k_rad * hh\<bar>"
    unfolding assms(1) by (rule vertical_det)
  have fast: "length x_data = length target \<and> length y_data = length target
        \<and> length mass = length target \<and> length rho = length target
        \<and> length h = length target \<longrightarrow>
        fast_2d_cross target x_data y_data wfunc k_rad mass rho h x1 y1 x2 y2 pixcount
          = np_zeros pixcount"
    unfolding assms(1) by (intro impI fast_2d_cross_vertical) simp_all
  have wrap: "\<not> np_isclose y2 y1 \<and> 0 < pixcount
        \<and> columns data target_l \<noteq> None \<and> columns data x_l \<noteq> None
        \<and> columns data y_l \<noteq> None \<and> columns data ''m'' \<noteq> None
        \<and> columns data ''rho'' \<noteq> None \<and> columns data ''h'' \<noteq> None \<longrightarrow>
        interpolate_2d_cross data target_l x_l y_l kern x1 y1 x2 y2 pixcount
          = Inr (np_zeros pixcount)"
  proof
    assume a: "\<not> np_isclose y2 y1 \<and> 0 < pixcount
        \<and> columns data target_l \<noteq> None \<and> columns data x_l \<noteq> None
        \<and> columns data y_l \<noteq> None \<and> columns data ''m'' \<noteq> None
        \<and> columns data ''rho'' \<noteq> None \<and> columns data ''h'' \<noteq> None"
    then have "\<not> (np_isclose y2 y1 \<and> np_isclose x2 x1)"
      by simp
    from interpolate_2d_cross_runs [OF this, of pixcount data target_l x_l y_l kern] a
    obtain target_a x_a y_a m_a rho_a h_a where
      cols: "to_numpy data target_l = Inr target_a" "to_numpy data x_l = Inr x_a"
        "to_numpy data y_l = Inr y_a" "to_numpy data ''m'' = Inr m_a"
        "to_numpy data ''rho'' = Inr rho_a" "to_numpy data ''h'' = Inr h_a"
      and res: "interpolate_2d_cross data target_l x_l y_l kern x1 y1 x2 y2 pixcount
               = Inr (fast_2d_cross target_a x_a y_a (weight kern) (get_radius kern)
                        m_a rho_a h_a x1 y1 x2 y2 pixcount)"
      by auto
    have "fast_2d_cross target_a x_a y_a (weight kern) (get_radius kern)
                        m_a rho_a h_a x1 y1 x1 y2 pixcount = np_zeros pixcount"
      using cols by (intro fast_2d_cross_vertical) (simp_all add: to_numpy_length)
    with res show "interpolate_2d_cross data target_l x_l y_l kern x1 y1 x2 y2 pixcount
          = Inr (np_zeros pixcount)"
      by (simp add: assms(1))
  qed
  show ?thesis
    apply (intro conjI)
        apply (rule g)
       apply (rule yi)
      apply (rule det)
     apply (rule fast)
    apply (rule wrap)
    done
qed

theorem C9_vertical_line_witness:
  "(1::real) = 1 \<and> (3::real) \<noteq> 0
   \<and> gradient 1 0 1 3 = 0
   \<and> yint 1 0 1 3 = 3
   \<and> (0 \<le> quad_det 1 0 1 3 2 (1 / 2) (1 / 2) 1 \<longleftrightarrow> \<bar>1 / 2 - 3\<bar> \<le> \<bar>2 * (1::real)\<bar>)
   \<and> fast_2d_cross [1, 2] [1 / 2, 3 / 2] [1 / 2, 1 / 2] CubicSplineKernel_w 2 [1, 1] [1, 2] [1, 1]
        1 0 1 3 4 = np_zeros 4
   \<and> \<not> np_isclose 3 0
   \<and> interpolate_2d_cross two_particles ''rho'' ''x'' ''y'' cubic_spline 1 0 1 3 4
       = Inr (np_zeros 4)"
proof -
  have cols: "columns two_particles ''rho'' \<noteq> None" "columns two_particles ''x'' \<noteq> None"
    "columns two_particles ''y'' \<noteq> None" "columns two_particles ''m'' \<noteq> None"
    "columns two_particles ''h'' \<noteq> None"
    by (simp_all add: two_particles_def)
  from C9_vertical_line [where ?x1.0 = 1 and ?y1.0 = 0 and ?x2.0 = 1 and ?y2.0 = 3
      and k_rad = 2 and xa = "1 / 2" and ya = "1 / 2" and hh = 1
      and target = "[1, 2]" and x_data = "[1 / 2, 3 / 2]" and y_data = "[1 / 2, 1 / 2]"
      and mass = "[1, 1]" and rho = "[1, 2]" and h = "[1, 1]" and wfunc = CubicSplineKernel_w
      and pixcount = 4 and data = two_particles and target_l = "''rho''"
      and x_l = "''x''" and y_l = "''y''" and kern = cubic_spline]
  show ?thesis
    by (simp add: cols np_isclose_def)
qed


section \<open>The column projector and its table\<close>

lemma interpolate_3d_mismatch:
  assumes "cache_ok kern" and "0 < int_samples"
    and "0 < pixwidthx" and "0 < pixwidthy" and "0 < pixcountx" and "0 < pixcounty"
    and "columns data target \<noteq> None" and "columns data x \<noteq> None"
    and "columns data y \<noteq> None" and "columns data ''m'' \<noteq> None"
    and "columns data ''rho'' \<noteq> None" and "columns data ''h'' \<noteq> None"
    and "0 < nrows data"
  shows "fst (interpolate_3d data target x y kern pixwidthx pixwidthy xmin ymin
                pixcountx pixcounty int_samples)
         = Inl (ValueError ''fp and xp are not of the same size.'')"
proof -
  have "0 \<le> int_samples"
    using assms(2) by simp
  from int_func_table [OF this, of "get_radius kern" "w kern"]
  obtain tbl where tbl: "int_func (get_radius kern) int_samples (w kern) = Inr tbl"
    "length tbl = nat int_samples + 1"
    by auto
  have gck: "fst (get_column_kernel kern int_samples) = Inr tbl"
    using tbl(1) by (simp add: get_column_kernel_result [OF assms(1)])
  obtain kern' where k': "get_column_kernel kern int_samples = (Inr tbl, kern')"
    using gck by (cases "get_column_kernel kern int_samples") simp
  obtain target_a where ta: "to_numpy data target = Inr target_a" "target_a \<noteq> []"
    using assms(7,13) by (auto simp: to_numpy_def)
  obtain x_a y_a m_a rho_a h_a where cols: "to_numpy data x = Inr x_a"
    "to_numpy data y = Inr y_a" "to_numpy data ''m'' = Inr m_a"
    "to_numpy data ''rho'' = Inr rho_a" "to_numpy data ''h'' = Inr h_a"
    using assms(8-12) by (auto simp: to_numpy_def)
  have "fast_3d target_a x_a y_a tbl int_samples (get_radius kern') m_a rho_a h_a
          xmin ymin pixwidthx pixwidthy pixcountx pixcounty
        = Inl (ValueError ''fp and xp are not of the same size.'')"
    using tbl(2) assms(2) ta(2) by (intro fast_3d_mismatch) simp_all
  then show ?thesis
    using assms(3-6) by (simp add: interpolate_3d_def ta cols k' ebind_def)
qed

text \<open>
  C2. The claim has the column table of \<open>samples + 1\<close> entries interpolated against
  \<open>samples + 1\<close> abscissas. \<open>_fast_3d\<close> builds its abscissas as
  \<open>np.linspace(0, k_rad, int_samples)\<close>, which are \<open>int_samples\<close> points, while
  \<open>get_column_kernel(int_samples)\<close> returns \<open>int_samples + 1\<close> values (its docstring promises
  \<open>samples\<close>). With the default 1000 samples and two particles, \<open>np.interp\<close> is given 1000
  abscissas and 1001 values and rejects them, so the interpolation of the claim does not
  take place (here the exception is the result of \<open>interpolate_3d\<close>);
  \<open>interpolate_3d_mismatch\<close> shows the same for every non-empty particle set and every
  \<open>int_samples > 0\<close>.
\<close>

theorem C2_column_abscissas:
  "(\<exists>tbl. fst (get_column_kernel CubicSplineKernel 1000) = Inr tbl \<and> length tbl = 1001)
   \<and> length (np_linspace 0 (get_radius CubicSplineKernel) 1000) = 1000
   \<and> fst (interpolate_3d two_particles ''rho'' ''x'' ''y'' CubicSplineKernel 1 1 0 0 2 1 1000)
       = Inl (ValueError ''fp and xp are not of the same size.'')"
proof (intro conjI)
  from int_func_table [of 1000 2 CubicSplineKernel_w]
  obtain tbl where "int_func 2 1000 CubicSplineKernel_w = Inr tbl" "length tbl = 1001"
    by auto
  moreover have "fst (get_column_kernel CubicSplineKernel 1000)
      = int_func (get_radius CubicSplineKernel) 1000 (w CubicSplineKernel)"
    by (rule get_column_kernel_result [OF cache_ok_init(2)])
  ultimately show "\<exists>tbl. fst (get_column_kernel CubicSplineKernel 1000) = Inr tbl
      \<and> length tbl = 1001"
    by (simp add: CubicSplineKernel_def)
  show "length (np_linspace 0 (get_radius CubicSplineKernel) 1000) = 1000"
    by (simp add: length_np_linspace)
  show "fst (interpolate_3d two_particles ''rho'' ''x'' ''y'' CubicSplineKernel 1 1 0 0 2 1 1000)
       = Inl (ValueError ''fp and xp are not of the same size.'')"
    by (rule interpolate_3d_mismatch [OF cache_ok_init(2)]) (simp_all add: two_particles_def)
qed

end
